theory Spec2Isabelle
  imports Complex_Main "HOL-Library.Word"
begin

section \<open>The PicoScope block-capture script and the HDF5 reader\<close>

text \<open>
  The two Python scripts of the repository are call-throughs to the vendor SDK
  (\<^verbatim>\<open>picosdk.ps5000a\<close>), to \<^verbatim>\<open>h5py\<close> and to \<^verbatim>\<open>matplotlib\<close>.  None of these is code of the
  repository, so the SDK is a parameter of every definition below: a \<^emph>\<open>device\<close> that
  answers each API call as a function of everything the program did before, and the
  library function \<^verbatim>\<open>mV2adc\<close>.  What the program does to the outside world is recorded, in
  order, in a trace of events.  Console output (\<^verbatim>\<open>print\<close>) changes nothing the program
  reads again and is left out of the trace.
\<close>

subsection \<open>Python exceptions\<close>

datatype error = IndexError | KeyError | TypeError | ValueError | OSError

subsection \<open>Events: calls of the vendor API and of the plotting library\<close>

text \<open>
  Each constructor carries the arguments in the order of the Python call.  An argument
  passed with \<^verbatim>\<open>ctypes.byref\<close> is recorded with the value the object holds at the call;
  arguments that are the constant \<^verbatim>\<open>None\<close> are not recorded.  A data pointer is the
  address of the array it points to.
\<close>

datatype api_call =
    OpenUnit "16 word" int
  | MaximumValue "16 word" "16 word"
  | SetChannel "16 word" int int int int real
  | SetSimpleTrigger "16 word" int int int int int int
  | SetDataBuffer "16 word" int nat "32 word" int int
  | MemorySegments "16 word" int "32 word"
  | SetNoOfCaptures "16 word" int
  | RunBlock "16 word" int int int int
  | IsReady "16 word" "16 word"
  | GetValuesBulk "16 word" "32 word" int int int int "16 word list"
  | Stop "16 word"
  | CloseUnit "16 word"

datatype event =
    Api api_call
  | Plot "int list"
  | PlotXY "int list" "int list" string
  | Show

subsection \<open>The SDK as a parameter\<close>

text \<open>
  The answer of the driver to one call: the returned \<^verbatim>\<open>PICO_STATUS\<close>, the values it
  leaves in the objects passed by reference (a 16-bit one, a 32-bit one, an array of
  16-bit values), and what it writes into memory whose address it was given.
\<close>

record response =
  rstatus :: "32 word"
  out16 :: "16 word"
  out32 :: "32 word"
  out_arr :: "16 word list"
  writes :: "(nat \<times> 16 word list) list"

record picosdk =
  device :: "event list \<Rightarrow> response"
  mV2adc :: "real \<Rightarrow> int \<Rightarrow> 16 word \<Rightarrow> error + real"

text \<open>Python's \<^verbatim>\<open>int(x)\<close> on a number: truncation towards zero.\<close>

definition py_int :: "real \<Rightarrow> int" where
  "py_int x = (if 0 \<le> x then \<lfloor>x\<rfloor> else \<lceil>x\<rceil>)"

text \<open>Python's \<^verbatim>\<open>int(b)\<close> on a bool.\<close>

definition int_of_bool :: "bool \<Rightarrow> int" where
  "int_of_bool b = (if b then 1 else 0)"

subsection \<open>The object and the world around it\<close>

text \<open>
  The fields of \<^verbatim>\<open>PicoBlockCap\<close>, followed by the two parts of the world the methods
  act on: the trace of events so far, and the memory of the numpy arrays by address
  (\<^verbatim>\<open>buffer\<close> is a Python list of references to such arrays).
\<close>

record pico =
  resolution :: int
  timebase :: int
  handle :: "16 word"
  max_adc :: "16 word"
  samples :: int
  max_samples :: "32 word"
  buffer :: "nat list"
  status :: "string \<rightharpoonup> 32 word"
  overflow :: "16 word list"
  ready :: "16 word"
  check :: "16 word"
  samples_per_seg :: "32 word"
  trace :: "event list"
  heap :: "nat \<Rightarrow> 16 word list"

text \<open>The driver writes into an array from its start and cannot change its length.\<close>

definition overwrite :: "'a list \<Rightarrow> 'a list \<Rightarrow> 'a list" where
  "overwrite old new = take (length old) new @ drop (length new) old"

definition write_array :: "nat \<times> 16 word list \<Rightarrow> (nat \<Rightarrow> 16 word list) \<Rightarrow> (nat \<Rightarrow> 16 word list)" where
  "write_array w h = (case w of (a, d) \<Rightarrow> h(a := overwrite (h a) d))"

text \<open>
  One call of the API: the call is appended to the trace, the device answers from the
  trace, and its memory writes take effect.
\<close>

definition call :: "picosdk \<Rightarrow> api_call \<Rightarrow> pico \<Rightarrow> response \<times> pico" where
  "call sdk c s =
     (let t = trace s @ [Api c];
          r = device sdk t
      in (r, s\<lparr>trace := t, heap := fold write_array (writes r) (heap s)\<rparr>))"

definition set_status :: "string \<Rightarrow> 32 word \<Rightarrow> pico \<Rightarrow> pico" where
  "set_status k v s = s\<lparr>status := (status s)(k \<mapsto> v)\<rparr>"

subsection \<open>\<^verbatim>\<open>PicoBlockCap.__init__\<close>\<close>

text \<open>
  \<^verbatim>\<open>ctypes.c_int16(n)\<close> and \<^verbatim>\<open>ctypes.c_int32(n)\<close> keep the low 16 and 32 bits of the
  Python integer.  The trace and the memory are those of the world at construction.
\<close>

definition init :: "event list \<Rightarrow> (nat \<Rightarrow> 16 word list) \<Rightarrow> int \<Rightarrow> nat list \<Rightarrow> int \<Rightarrow> pico" where
  "init tr mem handle0 buffer0 buffer_size =
     \<lparr> resolution = 1, timebase = 1,
       handle = word_of_int handle0,
       max_adc = 0,
       samples = buffer_size,
       max_samples = word_of_int buffer_size,
       buffer = buffer0,
       status = Map.empty,
       overflow = [0],
       ready = 0,
       check = 0,
       samples_per_seg = 0,
       trace = tr, heap = mem \<rparr>"

subsection \<open>The set-up methods\<close>

definition open_unit :: "picosdk \<Rightarrow> int \<Rightarrow> pico \<Rightarrow> 32 word \<times> pico" where
  "open_unit sdk res s =
     (case call sdk (OpenUnit (handle s) res) s of (r1, s1) \<Rightarrow>
        let s2 = set_status ''openunit'' (rstatus r1) (s1\<lparr>handle := out16 r1\<rparr>) in
        case call sdk (MaximumValue (handle s2) (max_adc s2)) s2 of (r2, s3) \<Rightarrow>
          let s4 = set_status ''maximumValue'' (rstatus r2) (s3\<lparr>max_adc := out16 r2\<rparr>)
          in (rstatus r1, s4))"

definition set_channel :: "picosdk \<Rightarrow> int \<Rightarrow> bool \<Rightarrow> int \<Rightarrow> int \<Rightarrow> real \<Rightarrow> pico \<Rightarrow> 32 word \<times> pico" where
  "set_channel sdk channel en coupling vrange offset s =
     (case call sdk (SetChannel (handle s) channel (int_of_bool en) coupling vrange offset) s of
        (r, s1) \<Rightarrow> (rstatus r, s1))"

definition set_simple_trigger ::
  "picosdk \<Rightarrow> int \<Rightarrow> int \<Rightarrow> int \<Rightarrow> real \<Rightarrow> int \<Rightarrow> int \<Rightarrow> int \<Rightarrow> pico \<Rightarrow> error + 32 word \<times> pico" where
  "set_simple_trigger sdk en source vrange threshold_mv direction delay auto_ms s =
     (case mV2adc sdk threshold_mv vrange (max_adc s) of
        Inl e \<Rightarrow> Inl e
      | Inr v \<Rightarrow>
          let threshold = py_int v in
          case call sdk (SetSimpleTrigger (handle s) en source threshold direction delay auto_ms) s of
            (r, s1) \<Rightarrow> Inr (rstatus r, s1))"

definition set_buffer :: "picosdk \<Rightarrow> int \<Rightarrow> nat list \<Rightarrow> int \<Rightarrow> pico \<Rightarrow> error + 32 word \<times> pico" where
  "set_buffer sdk channel buf segment s =
     (case buf of
        [] \<Rightarrow> Inl IndexError
      | a # _ \<Rightarrow>
          (case call sdk (SetDataBuffer (handle s) channel a (max_samples s) segment 0) s of
             (r, s1) \<Rightarrow> Inr (rstatus r, s1)))"

text \<open>\<^verbatim>\<open>(ctypes.c_int16 * captures)()\<close> raises \<^verbatim>\<open>ValueError\<close> for a negative length.\<close>

definition set_captures :: "picosdk \<Rightarrow> int \<Rightarrow> pico \<Rightarrow> error + 32 word \<times> pico" where
  "set_captures sdk captures s =
     (case call sdk (MemorySegments (handle s) captures (samples_per_seg s)) s of (r1, s1) \<Rightarrow>
        let s2 = set_status ''MemorySegments'' (rstatus r1) (s1\<lparr>samples_per_seg := out32 r1\<rparr>) in
        case call sdk (SetNoOfCaptures (handle s2) captures) s2 of (r2, s3) \<Rightarrow>
          let s4 = set_status ''SetNoOfCaptures'' (rstatus r2) s3 in
          if captures < 0 then Inl ValueError
          else Inr (rstatus r2, s4\<lparr>overflow := replicate (nat captures) 0\<rparr>))"

text \<open>\<^verbatim>\<open>self.status[k] = m(...)\<close>: the method runs first, then its result is stored.\<close>

definition initalise_parameters :: "picosdk \<Rightarrow> pico \<Rightarrow> error + pico" where
  "initalise_parameters sdk s =
     (case open_unit sdk (resolution s) s of (v0, s0) \<Rightarrow>
     (case set_channel sdk 0 True 0 9 0 (set_status ''openunit'' v0 s0) of (v1, s1) \<Rightarrow>
     (case set_channel sdk 1 False 0 9 0 (set_status ''set_source'' v1 s1) of (v2, s2) \<Rightarrow>
     (case set_channel sdk 2 False 0 9 0 (set_status ''set_source'' v2 s2) of (v3, s3) \<Rightarrow>
     (case set_channel sdk 3 False 0 9 0 (set_status ''set_source'' v3 s3) of (v4, s4) \<Rightarrow>
     (case set_simple_trigger sdk 1 0 9 0 2 0 10 (set_status ''set_source'' v4 s4) of
        Inl e \<Rightarrow> Inl e
      | Inr (v5, s5) \<Rightarrow>
     (case set_captures sdk 1 (set_status ''set_trigger'' v5 s5) of
        Inl e \<Rightarrow> Inl e
      | Inr (v6, s6) \<Rightarrow>
     (case set_buffer sdk 0 (buffer s6) 0 (set_status ''set_captures'' v6 s6) of
        Inl e \<Rightarrow> Inl e
      | Inr (v7, s7) \<Rightarrow> Inr (set_status ''set_buffer'' v7 s7)))))))))"

subsection \<open>\<^verbatim>\<open>run_block\<close>: start, poll, read back\<close>

text \<open>One turn of the poll loop: \<^verbatim>\<open>self.status["isReady"] = ps.ps5000aIsReady(...)\<close>.\<close>

definition is_ready :: "picosdk \<Rightarrow> pico \<Rightarrow> pico" where
  "is_ready sdk s =
     (case call sdk (IsReady (handle s) (ready s)) s of
        (r, s1) \<Rightarrow> set_status ''isReady'' (rstatus r) (s1\<lparr>ready := out16 r\<rparr>))"

text \<open>
  The loop \<^verbatim>\<open>while self.ready.value == self.check.value\<close>.  It may run forever: the
  value \<open>None\<close> stands for a loop that never ends.
\<close>

partial_function (option) poll :: "picosdk \<Rightarrow> pico \<Rightarrow> pico option" where
  "poll sdk s =
     (if sint (ready s) = sint (check s) then poll sdk (is_ready sdk s) else Some s)"

declare poll.simps [code]

text \<open>The statement before the loop: \<^verbatim>\<open>self.status["runblock"] = ps.ps5000aRunBlock(...)\<close>.\<close>

definition start_block :: "picosdk \<Rightarrow> pico \<Rightarrow> pico" where
  "start_block sdk s =
     (case call sdk (RunBlock (handle s) 0 (samples s) (timebase s) 0) s of
        (r, s1) \<Rightarrow> set_status ''runblock'' (rstatus r) s1)"

text \<open>
  The statement after the loop: \<^verbatim>\<open>self.status["GetValuesBulk"] = ps.ps5000aGetValuesBulk(...)\<close>,
  with \<^verbatim>\<open>self.max_samples\<close> and \<^verbatim>\<open>self.overflow\<close> passed by reference.
\<close>

definition get_values :: "picosdk \<Rightarrow> pico \<Rightarrow> pico" where
  "get_values sdk s =
     (case call sdk (GetValuesBulk (handle s) (max_samples s) 0 0 0 0 (overflow s)) s of
        (r, s1) \<Rightarrow>
          set_status ''GetValuesBulk'' (rstatus r)
            (s1\<lparr>max_samples := out32 r, overflow := overwrite (overflow s1) (out_arr r)\<rparr>))"

definition run_block :: "picosdk \<Rightarrow> pico \<Rightarrow> pico option" where
  "run_block sdk s =
     (case poll sdk (start_block sdk s) of
        None \<Rightarrow> None
      | Some s1 \<Rightarrow> Some ((get_values sdk s1)\<lparr>ready := 0\<rparr>))"

definition stop_scope :: "picosdk \<Rightarrow> pico \<Rightarrow> 32 word \<times> pico" where
  "stop_scope sdk s =
     (case call sdk (Stop (handle s)) s of (r1, s1) \<Rightarrow>
        let s2 = set_status ''stop'' (rstatus r1) s1 in
        case call sdk (CloseUnit (handle s2)) s2 of (r2, s3) \<Rightarrow>
          let s4 = set_status ''close'' (rstatus r2) s3
          in (rstatus r2, s4))"

subsection \<open>The example script at module level\<close>

definition plt_plot :: "int list \<Rightarrow> pico \<Rightarrow> pico" where
  "plt_plot d s = s\<lparr>trace := trace s @ [Plot d]\<rparr>"

definition plt_show :: "pico \<Rightarrow> pico" where
  "plt_show s = s\<lparr>trace := trace s @ [Show]\<rparr>"

text \<open>
  \<^verbatim>\<open>plt.plot(streaming_buffer[0]); plt.show()\<close>: the values plotted are those the array
  holds at that moment.
\<close>

definition plot_buffer :: "nat list \<Rightarrow> pico \<Rightarrow> pico" where
  "plot_buffer streaming_buffer s =
     plt_show (plt_plot (map sint (heap s (streaming_buffer ! 0))) s)"

definition np_zeros :: "nat \<Rightarrow> 16 word list" where
  "np_zeros n = replicate n 0"

text \<open>
  The array made by \<^verbatim>\<open>np.zeros(100000, dtype='int16')\<close> lives at address 0; the list
  \<^verbatim>\<open>streaming_buffer\<close> holds a reference to it and is the very list given to the
  constructor of \<^verbatim>\<open>test\<close>.  The result of the script is \<open>None\<close> when a poll loop never ends, \<open>Some (Inl e)\<close> when
  the script dies of the exception \<open>e\<close>, and \<open>Some (Inr s)\<close> when it runs to its end.
\<close>

definition streaming_buffer :: "nat list" where
  "streaming_buffer = [0]"

definition test :: pico where
  "test = init [] ((\<lambda>_. [])(0 := np_zeros 100000)) 0 streaming_buffer 100000"

definition script :: "picosdk \<Rightarrow> (error + pico) option" where
  "script sdk =
     (case initalise_parameters sdk test of
        Inl e \<Rightarrow> Some (Inl e)
      | Inr t1 \<Rightarrow>
     (case run_block sdk t1 of
        None \<Rightarrow> None
      | Some t2 \<Rightarrow>
     (case run_block sdk (plot_buffer streaming_buffer t2) of
        None \<Rightarrow> None
      | Some t3 \<Rightarrow>
     (case set_channel sdk 0 False 0 9 0 (plot_buffer streaming_buffer t3) of (v1, t4) \<Rightarrow>
     (case set_channel sdk 1 True 0 9 0 (set_status ''set_source'' v1 t4) of (v2, t5) \<Rightarrow>
     (case set_buffer sdk 1 (buffer t5) 0 (set_status ''set_source'' v2 t5) of
        Inl e \<Rightarrow> Some (Inl e)
      | Inr (v3, t6) \<Rightarrow>
     (case set_simple_trigger sdk 1 1 9 0 2 0 10 (set_status ''set_buffer'' v3 t6) of
        Inl e \<Rightarrow> Some (Inl e)
      | Inr (ret, t7) \<Rightarrow>
     (case run_block sdk t7 of
        None \<Rightarrow> None
      | Some t8 \<Rightarrow>
          Some (Inr (snd (stop_scope sdk (plot_buffer streaming_buffer t8))))))))))))"

subsection \<open>\<^verbatim>\<open>readhdf5.py\<close>\<close>

text \<open>
  The capture archive as \<^verbatim>\<open>h5py\<close> shows it: named objects, each a group or a dataset
  with its attributes in iteration order; a dataset is a two-dimensional array, a list
  of rows.  An attribute value is an integer array, a string or a single integer.
\<close>

datatype attr = IntArray "int list" | Text string | Scalar int

datatype h5object =
    Group "(string \<times> attr) list"
  | Dataset "(string \<times> attr) list" "int list list"

type_synonym h5file = "string \<rightharpoonup> h5object"

fun attrs :: "h5object \<Rightarrow> (string \<times> attr) list" where
  "attrs (Group a) = a"
| "attrs (Dataset a _) = a"

text \<open>\<^verbatim>\<open>f[name]\<close>\<close>

definition getitem :: "h5file \<Rightarrow> string \<Rightarrow> error + h5object" where
  "getitem f name = (case f name of None \<Rightarrow> Inl KeyError | Some ob \<Rightarrow> Inr ob)"

text \<open>\<^verbatim>\<open>ob[i]\<close> for a row index \<open>i\<close>: a group cannot be indexed by a number.\<close>

fun row :: "h5object \<Rightarrow> nat \<Rightarrow> error + int list" where
  "row (Group _) i = Inl TypeError"
| "row (Dataset _ rows) i = (if i < length rows then Inr (rows ! i) else Inl IndexError)"

text \<open>Python's \<^verbatim>\<open>str\<close> of an integer: decimal digits, with a minus sign if negative.\<close>

definition digit :: "nat \<Rightarrow> char" where
  "digit d = ''0123456789'' ! d"

function str_nat :: "nat \<Rightarrow> string" where
  "str_nat n = (if n < 10 then [digit n] else str_nat (n div 10) @ [digit (n mod 10)])"
  by pat_completeness auto
termination
  by (relation "measure id") auto

definition str_int :: "int \<Rightarrow> string" where
  "str_int i = (if i < 0 then CHR ''-'' # str_nat (nat (- i)) else str_nat (nat i))"

text \<open>\<^verbatim>\<open>len(v)\<close> and \<^verbatim>\<open>str(v[ch])\<close> for an attribute value \<open>v\<close>.\<close>

fun attr_len :: "attr \<Rightarrow> error + nat" where
  "attr_len (IntArray xs) = Inr (length xs)"
| "attr_len (Text t) = Inr (length t)"
| "attr_len (Scalar _) = Inl TypeError"

fun attr_str :: "attr \<Rightarrow> nat \<Rightarrow> string" where
  "attr_str (IntArray xs) ch = str_int (xs ! ch)"
| "attr_str (Text t) ch = [t ! ch]"
| "attr_str (Scalar _) ch = []"

text \<open>The first loop copies every attribute of the group into the dictionary.\<close>

definition copy_attrs :: "(string \<times> attr) list \<Rightarrow> (string \<rightharpoonup> attr)" where
  "copy_attrs a = fold (\<lambda>key metadata. metadata(key := map_of a key)) (map fst a) Map.empty"

text \<open>The body of the second loop, for the indices still to visit.\<close>

fun channels_loop :: "h5file \<Rightarrow> attr \<Rightarrow> nat list \<Rightarrow> event list \<Rightarrow> error + event list" where
  "channels_loop f ac [] tr = Inr tr"
| "channels_loop f ac (ch # rest) tr =
     (case getitem f (''adc_counts_'' @ attr_str ac ch) of
        Inl e \<Rightarrow> Inl e
      | Inr counts \<Rightarrow>
     (case getitem f (''pha_'' @ attr_str ac ch) of
        Inl e \<Rightarrow> Inl e
      | Inr pha \<Rightarrow>
     (case row counts 0 of
        Inl e \<Rightarrow> Inl e
      | Inr c0 \<Rightarrow>
     (case row pha 0 of
        Inl e \<Rightarrow> Inl e
      | Inr p0 \<Rightarrow>
     (case row pha 1 of
        Inl e \<Rightarrow> Inl e
      | Inr p1 \<Rightarrow>
          channels_loop f ac rest (tr @ [Plot c0, Show, PlotXY p0 p1 ''bo-'', Show]))))))"

text \<open>
  \<^verbatim>\<open>read_hdf5(filename)\<close> in a file system \<open>fs\<close>; the result is the exception raised or
  the plotting events in order.
\<close>

definition read_hdf5 :: "(string \<rightharpoonup> h5file) \<Rightarrow> string \<Rightarrow> error + event list" where
  "read_hdf5 fs filename =
     (case fs filename of
        None \<Rightarrow> Inl OSError
      | Some f \<Rightarrow>
     (case getitem f ''metadata'' of
        Inl e \<Rightarrow> Inl e
      | Inr metadata_group \<Rightarrow>
          let metadata = copy_attrs (attrs metadata_group) in
          (case metadata ''active_channels'' of
             None \<Rightarrow> Inl KeyError
           | Some ac \<Rightarrow>
          (case attr_len ac of
             Inl e \<Rightarrow> Inl e
           | Inr n \<Rightarrow> channels_loop f ac [0..<n] []))))"

subsection \<open>A device to run the program on\<close>

text \<open>
  A driver that answers every call with the number of events so far as its status,
  opens the unit with handle 16384, reports 32512 as the largest ADC count, reports a
  capture as ready at the second \<^verbatim>\<open>ps5000aIsReady\<close> in a row, and on read-back writes
  three samples to address 0 and leaves the sample count and the overflow flags as they
  were.  The conversion of millivolts is the linear one for the 10 V range (index 9).
\<close>

definition quiet :: "event list \<Rightarrow> response" where
  "quiet t = \<lparr>rstatus = of_nat (length t), out16 = 0, out32 = 0, out_arr = [], writes = []\<rparr>"

definition demo_device :: "event list \<Rightarrow> response" where
  "demo_device t =
     (case rev t of
        [] \<Rightarrow> quiet t
      | e # past \<Rightarrow>
         (case e of
            Api (OpenUnit h res) \<Rightarrow> (quiet t)\<lparr>out16 := 16384\<rparr>
          | Api (MaximumValue h m) \<Rightarrow> (quiet t)\<lparr>out16 := 32512\<rparr>
          | Api (MemorySegments h c n) \<Rightarrow> (quiet t)\<lparr>out32 := 1000000\<rparr>
          | Api (IsReady h r) \<Rightarrow>
              (case past of
                 Api (IsReady h' r') # _ \<Rightarrow> (quiet t)\<lparr>out16 := 1\<rparr>
               | _ \<Rightarrow> quiet t)
          | Api (GetValuesBulk h n a b c d ov) \<Rightarrow>
              (quiet t)\<lparr>out32 := n, out_arr := ov, writes := [(0, [3, - 2, 1])]\<rparr>
          | _ \<Rightarrow> quiet t))"

definition demo_mV2adc :: "real \<Rightarrow> int \<Rightarrow> 16 word \<Rightarrow> error + real" where
  "demo_mV2adc mv vrange m =
     (if vrange = 9 then Inr (mv * real_of_int (sint m) / 10000) else Inl IndexError)"

definition demo :: picosdk where
  "demo = \<lparr>device = demo_device, mV2adc = demo_mV2adc\<rparr>"

text \<open>An object with a buffer of one array of four samples, told to capture three.\<close>

definition demo_start :: pico where
  "demo_start = init [] ((\<lambda>_. [])(0 := [0, 0, 0, 0])) 0 [0] 3"

subsection \<open>Notions used to state the properties\<close>

text \<open>The kind of an event, without its arguments.\<close>

datatype op =
    OpOpen | OpMaximum | OpChannel | OpTrigger | OpBuffer | OpSegments | OpCaptures
  | OpRun | OpReady | OpGetValues | OpStop | OpClose | OpPlot | OpPlotXY | OpShow

fun op_of :: "event \<Rightarrow> op" where
  "op_of (Api (OpenUnit _ _)) = OpOpen"
| "op_of (Api (MaximumValue _ _)) = OpMaximum"
| "op_of (Api (SetChannel _ _ _ _ _ _)) = OpChannel"
| "op_of (Api (SetSimpleTrigger _ _ _ _ _ _ _)) = OpTrigger"
| "op_of (Api (SetDataBuffer _ _ _ _ _ _)) = OpBuffer"
| "op_of (Api (MemorySegments _ _ _)) = OpSegments"
| "op_of (Api (SetNoOfCaptures _ _)) = OpCaptures"
| "op_of (Api (RunBlock _ _ _ _ _)) = OpRun"
| "op_of (Api (IsReady _ _)) = OpReady"
| "op_of (Api (GetValuesBulk _ _ _ _ _ _ _)) = OpGetValues"
| "op_of (Api (Stop _)) = OpStop"
| "op_of (Api (CloseUnit _)) = OpClose"
| "op_of (Plot _) = OpPlot"
| "op_of (PlotXY _ _ _) = OpPlotXY"
| "op_of Show = OpShow"

text \<open>The waveforms given to \<^verbatim>\<open>plt.plot\<close>, in order.\<close>

fun plotted :: "event list \<Rightarrow> int list list" where
  "plotted [] = []"
| "plotted (Plot d # t) = d # plotted t"
| "plotted (Api c # t) = plotted t"
| "plotted (PlotXY x y fmt # t) = plotted t"
| "plotted (Show # t) = plotted t"

text \<open>
  The states an object can be in: made by the constructor, then changed only by
  methods of the class that returned, by the plotting of the script and by a store
  into the status dictionary (which the script does from outside the class).
\<close>

inductive reachable :: "picosdk \<Rightarrow> pico \<Rightarrow> bool" for sdk :: picosdk where
  r_init: "reachable sdk (init tr mem handle0 buffer0 buffer_size)"
| r_open_unit: "reachable sdk s \<Longrightarrow> open_unit sdk res s = (v, s') \<Longrightarrow> reachable sdk s'"
| r_set_channel:
    "reachable sdk s \<Longrightarrow> set_channel sdk channel en coupling vrange offset s = (v, s') \<Longrightarrow>
     reachable sdk s'"
| r_set_simple_trigger:
    "reachable sdk s \<Longrightarrow>
     set_simple_trigger sdk en' source vrange threshold_mv direction delay auto_ms s = Inr (v, s') \<Longrightarrow>
     reachable sdk s'"
| r_set_buffer:
    "reachable sdk s \<Longrightarrow> set_buffer sdk channel buf segment s = Inr (v, s') \<Longrightarrow> reachable sdk s'"
| r_set_captures:
    "reachable sdk s \<Longrightarrow> set_captures sdk captures s = Inr (v, s') \<Longrightarrow> reachable sdk s'"
| r_initalise_parameters:
    "reachable sdk s \<Longrightarrow> initalise_parameters sdk s = Inr s' \<Longrightarrow> reachable sdk s'"
| r_run_block: "reachable sdk s \<Longrightarrow> run_block sdk s = Some s' \<Longrightarrow> reachable sdk s'"
| r_stop_scope: "reachable sdk s \<Longrightarrow> stop_scope sdk s = (v, s') \<Longrightarrow> reachable sdk s'"
| r_plot_buffer: "reachable sdk s \<Longrightarrow> reachable sdk (plot_buffer buf s)"
| r_set_status: "reachable sdk s \<Longrightarrow> reachable sdk (set_status k v s)"

text \<open>
  The same driver with other status codes: \<open>f\<close> gives the code returned for each call,
  everything else the driver does stays as it is.
\<close>

definition with_status :: "(event list \<Rightarrow> 32 word) \<Rightarrow> picosdk \<Rightarrow> picosdk" where
  "with_status f sdk = sdk\<lparr>device := \<lambda>t. (device sdk t)\<lparr>rstatus := f t\<rparr>\<rparr>"

text \<open>A state without its status dictionary.\<close>

definition forget_status :: "pico \<Rightarrow> pico" where
  "forget_status s = s\<lparr>status := Map.empty\<rparr>"

text \<open>Two states that differ at most in their status dictionaries.\<close>

definition same_but_status :: "pico \<Rightarrow> pico \<Rightarrow> bool" where
  "same_but_status a b \<longleftrightarrow> forget_status a = forget_status b"

text \<open>The calls of \<^verbatim>\<open>ps5000aSetChannel\<close> for the channels 0, 1 and 2.\<close>

definition early_channel :: "event list \<Rightarrow> bool" where
  "early_channel t =
     (case rev t of
        Api (SetChannel h c en cp rg off) # _ \<Rightarrow> c = 0 \<or> c = 1 \<or> c = 2
      | _ \<Rightarrow> False)"

text \<open>The same driver with other status codes for those calls only.\<close>

definition with_early_status :: "(event list \<Rightarrow> 32 word) \<Rightarrow> picosdk \<Rightarrow> picosdk" where
  "with_early_status f sdk =
     sdk\<lparr>device := \<lambda>t. if early_channel t then (device sdk t)\<lparr>rstatus := f t\<rparr> else device sdk t\<rparr>"

text \<open>The rows of the dataset of that name, none if there is no such dataset.\<close>

definition rows_of :: "h5file \<Rightarrow> string \<Rightarrow> int list list" where
  "rows_of f name = (case f name of Some (Dataset _ rows) \<Rightarrow> rows | _ \<Rightarrow> [])"

text \<open>What the second loop of \<^verbatim>\<open>read_hdf5\<close> renders for the entry of index \<open>ch\<close>.\<close>

definition channel_plots :: "h5file \<Rightarrow> attr \<Rightarrow> nat \<Rightarrow> event list" where
  "channel_plots f ac ch =
     [Plot (rows_of f (''adc_counts_'' @ attr_str ac ch) ! 0), Show,
      PlotXY (rows_of f (''pha_'' @ attr_str ac ch) ! 0)
             (rows_of f (''pha_'' @ attr_str ac ch) ! 1) ''bo-'', Show]"

text \<open>
  A capture archive with two active channels, 0 and 2, each with two captures of three
  samples and a histogram of two bins.
\<close>

definition demo_file :: h5file where
  "demo_file =
     [''metadata'' \<mapsto> Group [(''n_captures'', Scalar 2), (''active_channels'', IntArray [0, 2])],
      ''adc_counts_0'' \<mapsto> Dataset [] [[1, 2, 3], [4, 5, 6]],
      ''pha_0'' \<mapsto> Dataset [] [[0, 1], [5, 7]],
      ''adc_counts_2'' \<mapsto> Dataset [] [[- 1, - 2, - 3], [- 4, - 5, - 6]],
      ''pha_2'' \<mapsto> Dataset [] [[0, 1], [9, 3]]]"

definition demo_fs :: "string \<rightharpoonup> h5file" where
  "demo_fs = [''capture.hdf5'' \<mapsto> demo_file]"

section \<open>The poll loop\<close>

lemma sint16_eq: "sint (a::16 word) = sint b \<longleftrightarrow> a = b"
  by (auto intro: signed_word_eqI)

lemma call_eq:
  "call sdk c s =
     (device sdk (trace s @ [Api c]),
      s\<lparr>trace := trace s @ [Api c],
        heap := fold write_array (writes (device sdk (trace s @ [Api c]))) (heap s)\<rparr>)"
  by (simp add: call_def Let_def)

lemma is_ready_frame [simp]:
  "handle (is_ready sdk s) = handle s"
  "check (is_ready sdk s) = check s"
  "samples (is_ready sdk s) = samples s"
  "timebase (is_ready sdk s) = timebase s"
  "resolution (is_ready sdk s) = resolution s"
  "max_samples (is_ready sdk s) = max_samples s"
  "max_adc (is_ready sdk s) = max_adc s"
  "overflow (is_ready sdk s) = overflow s"
  "buffer (is_ready sdk s) = buffer s"
  "samples_per_seg (is_ready sdk s) = samples_per_seg s"
  by (simp_all add: is_ready_def call_eq set_status_def)

lemma is_ready_trace:
  "trace (is_ready sdk s) = trace s @ [Api (IsReady (handle s) (ready s))]"
  by (simp add: is_ready_def call_eq set_status_def)

lemma is_ready_ready:
  "ready (is_ready sdk s) = out16 (device sdk (trace s @ [Api (IsReady (handle s) (ready s))]))"
  by (simp add: is_ready_def call_eq set_status_def)

lemma iter_frame [simp]:
  "handle ((is_ready sdk ^^ n) s) = handle s"
  "check ((is_ready sdk ^^ n) s) = check s"
  "samples ((is_ready sdk ^^ n) s) = samples s"
  "timebase ((is_ready sdk ^^ n) s) = timebase s"
  "resolution ((is_ready sdk ^^ n) s) = resolution s"
  "max_samples ((is_ready sdk ^^ n) s) = max_samples s"
  "max_adc ((is_ready sdk ^^ n) s) = max_adc s"
  "overflow ((is_ready sdk ^^ n) s) = overflow s"
  "buffer ((is_ready sdk ^^ n) s) = buffer s"
  "samples_per_seg ((is_ready sdk ^^ n) s) = samples_per_seg s"
  by (induction n) simp_all

text \<open>The trace after \<open>n\<close> turns of the loop, none of which was the last.\<close>

lemma iter_trace:
  "(\<forall>k<n. ready ((is_ready sdk ^^ k) s) = check s) \<Longrightarrow>
   trace ((is_ready sdk ^^ n) s) = trace s @ replicate n (Api (IsReady (handle s) (check s)))"
proof (induction n)
  case 0
  show ?case by simp
next
  case (Suc n)
  then have "trace ((is_ready sdk ^^ n) s) = trace s @ replicate n (Api (IsReady (handle s) (check s)))"
    and "ready ((is_ready sdk ^^ n) s) = check s"
    by simp_all
  then show ?case
    by (simp add: is_ready_trace replicate_append_same)
qed

lemma ready_after_is_ready:
  "ready (is_ready sdk s) = out16 (device sdk (trace (is_ready sdk s)))"
  by (simp add: is_ready_ready is_ready_trace)

text \<open>
  While the loop runs, the answers of the device decide: the flag after turn \<open>k\<close> is
  the device's answer to \<open>k\<close> calls of \<^verbatim>\<open>ps5000aIsReady\<close> in a row.
\<close>

lemma pending_iff:
  assumes "ready s = check s"
  shows "(\<forall>k\<le>n. ready ((is_ready sdk ^^ k) s) = check s) \<longleftrightarrow>
         (\<forall>k. 0 < k \<and> k \<le> n \<longrightarrow>
            out16 (device sdk (trace s @ replicate k (Api (IsReady (handle s) (check s))))) = check s)"
proof (induction n)
  case 0
  show ?case using assms by simp
next
  case (Suc n)
  show ?case
  proof (cases "\<forall>k\<le>n. ready ((is_ready sdk ^^ k) s) = check s")
    case True
    then have tr: "trace ((is_ready sdk ^^ Suc n) s) =
        trace s @ replicate (Suc n) (Api (IsReady (handle s) (check s)))"
      by (intro iter_trace) simp
    have "ready ((is_ready sdk ^^ Suc n) s) =
        out16 (device sdk (trace s @ replicate (Suc n) (Api (IsReady (handle s) (check s)))))"
      using ready_after_is_ready[of sdk "(is_ready sdk ^^ n) s"] tr by simp
    with True Suc.IH show ?thesis
      by (metis le_Suc_eq zero_less_Suc)
  next
    case False
    with Suc.IH show ?thesis
      by (meson le_Suc_eq)
  qed
qed

lemma poll_skip:
  "(\<forall>k<n. ready ((is_ready sdk ^^ k) s) = check s) \<Longrightarrow>
   poll sdk s = poll sdk ((is_ready sdk ^^ n) s)"
proof (induction n)
  case 0
  show ?case by simp
next
  case (Suc n)
  then have "poll sdk s = poll sdk ((is_ready sdk ^^ n) s)" by simp
  also have "\<dots> = poll sdk (is_ready sdk ((is_ready sdk ^^ n) s))"
    using Suc.prems by (subst poll.simps) simp
  finally show ?case by simp
qed

lemma poll_Some_D:
  assumes "poll sdk s = Some s'"
  shows "\<exists>n. s' = (is_ready sdk ^^ n) s \<and> ready s' \<noteq> check s \<and>
             (\<forall>k<n. ready ((is_ready sdk ^^ k) s) = check s)"
  using assms
proof (induct rule: poll.raw_induct[rotated 1, consumes 1])
  case (1 poll' sdk s s')
  show ?case
  proof (cases "ready s = check s")
    case True
    with 1(2) have "poll' sdk (is_ready sdk s) = Some s'" by (simp add: sint16_eq)
    from 1(1)[OF this] obtain n where n: "s' = (is_ready sdk ^^ n) (is_ready sdk s)"
      "ready s' \<noteq> check s" "\<forall>k<n. ready ((is_ready sdk ^^ k) (is_ready sdk s)) = check s"
      by auto
    have "\<forall>k<Suc n. ready ((is_ready sdk ^^ k) s) = check s"
    proof (intro allI impI)
      fix k assume "k < Suc n"
      then show "ready ((is_ready sdk ^^ k) s) = check s"
        using n(3) True by (cases k) (simp_all add: funpow_swap1)
    qed
    with n show ?thesis
      by (intro exI[of _ "Suc n"]) (simp add: funpow_swap1)
  next
    case False
    with 1(2) have "s' = s" by (simp add: sint16_eq)
    with False show ?thesis by (intro exI[of _ 0]) simp
  qed
qed

lemma poll_Some_I:
  assumes "ready ((is_ready sdk ^^ n) s) \<noteq> check s"
  shows "\<exists>s'. poll sdk s = Some s'"
proof -
  define m where "m = (LEAST k. ready ((is_ready sdk ^^ k) s) \<noteq> check s)"
  have m: "ready ((is_ready sdk ^^ m) s) \<noteq> check s"
    unfolding m_def using assms by (rule LeastI)
  have "\<forall>k<m. ready ((is_ready sdk ^^ k) s) = check s"
    unfolding m_def using not_less_Least by blast
  then have "poll sdk s = poll sdk ((is_ready sdk ^^ m) s)"
    by (rule poll_skip)
  also have "\<dots> = Some ((is_ready sdk ^^ m) s)"
    using m by (subst poll.simps) (simp add: sint16_eq)
  finally show ?thesis by blast
qed

text \<open>The loop seen from outside, when it is entered with the flag equal to the check value.\<close>

lemma poll_returns:
  assumes "ready s = check s" and "poll sdk s = Some s'"
  shows "\<exists>n>0. s' = (is_ready sdk ^^ n) s \<and>
           trace s' = trace s @ replicate n (Api (IsReady (handle s) (check s))) \<and>
           out16 (device sdk (trace s @ replicate n (Api (IsReady (handle s) (check s))))) \<noteq> check s \<and>
           (\<forall>k. 0 < k \<and> k < n \<longrightarrow>
              out16 (device sdk (trace s @ replicate k (Api (IsReady (handle s) (check s))))) = check s)"
proof -
  from poll_Some_D[OF assms(2)] obtain n where n: "s' = (is_ready sdk ^^ n) s"
    "ready s' \<noteq> check s" "\<forall>k<n. ready ((is_ready sdk ^^ k) s) = check s"
    by blast
  from n(1,2) assms(1) have pos: "0 < n" by (cases n) auto
  then obtain m where m: "n = Suc m" by (cases n) auto
  have tr: "trace s' = trace s @ replicate n (Api (IsReady (handle s) (check s)))"
    unfolding n(1) using n(3) by (rule iter_trace)
  have "ready s' = out16 (device sdk (trace s'))"
    unfolding n(1) m using ready_after_is_ready[of sdk "(is_ready sdk ^^ m) s"] by simp
  with n(2) tr have last: "out16 (device sdk (trace s @ replicate n (Api (IsReady (handle s) (check s))))) \<noteq> check s"
    by simp
  from n(3) m have "\<forall>k\<le>m. ready ((is_ready sdk ^^ k) s) = check s" by auto
  then have "\<forall>k. 0 < k \<and> k \<le> m \<longrightarrow>
      out16 (device sdk (trace s @ replicate k (Api (IsReady (handle s) (check s))))) = check s"
    using pending_iff[OF assms(1), of m sdk] by simp
  with m have "\<forall>k. 0 < k \<and> k < n \<longrightarrow>
      out16 (device sdk (trace s @ replicate k (Api (IsReady (handle s) (check s))))) = check s"
    by auto
  with pos n(1) tr last show ?thesis by blast
qed

lemma poll_terminates:
  assumes "ready s = check s" and "0 < n"
    and "out16 (device sdk (trace s @ replicate n (Api (IsReady (handle s) (check s))))) \<noteq> check s"
  shows "\<exists>s'. poll sdk s = Some s'"
proof -
  have "\<not> (\<forall>k\<le>n. ready ((is_ready sdk ^^ k) s) = check s)"
    using pending_iff[OF assms(1), of n sdk] assms(2,3) by auto
  then obtain k where "ready ((is_ready sdk ^^ k) s) \<noteq> check s" by blast
  then show ?thesis by (rule poll_Some_I)
qed


lemma start_block_frame [simp]:
  "handle (start_block sdk s) = handle s"
  "ready (start_block sdk s) = ready s"
  "check (start_block sdk s) = check s"
  "samples (start_block sdk s) = samples s"
  "timebase (start_block sdk s) = timebase s"
  "resolution (start_block sdk s) = resolution s"
  "max_samples (start_block sdk s) = max_samples s"
  "max_adc (start_block sdk s) = max_adc s"
  "overflow (start_block sdk s) = overflow s"
  "buffer (start_block sdk s) = buffer s"
  "samples_per_seg (start_block sdk s) = samples_per_seg s"
  "trace (start_block sdk s) = trace s @ [Api (RunBlock (handle s) 0 (samples s) (timebase s) 0)]"
  by (simp_all add: start_block_def call_eq set_status_def)

lemma get_values_frame [simp]:
  "handle (get_values sdk s) = handle s"
  "ready (get_values sdk s) = ready s"
  "check (get_values sdk s) = check s"
  "samples (get_values sdk s) = samples s"
  "timebase (get_values sdk s) = timebase s"
  "resolution (get_values sdk s) = resolution s"
  "max_adc (get_values sdk s) = max_adc s"
  "buffer (get_values sdk s) = buffer s"
  "samples_per_seg (get_values sdk s) = samples_per_seg s"
  "trace (get_values sdk s) =
     trace s @ [Api (GetValuesBulk (handle s) (max_samples s) 0 0 0 0 (overflow s))]"
  by (simp_all add: get_values_def call_eq set_status_def)

lemma run_block_Some:
  "run_block sdk s = Some s' \<longleftrightarrow>
     (\<exists>s1. poll sdk (start_block sdk s) = Some s1 \<and> s' = (get_values sdk s1)\<lparr>ready := 0\<rparr>)"
  by (auto simp: run_block_def split: option.splits)

lemma run_block_trace:
  assumes "run_block sdk s = Some s'" and "ready s = 0" and "check s = 0"
  shows "\<exists>n>0.
           trace s' =
             trace s @ [Api (RunBlock (handle s) 0 (samples s) (timebase s) 0)]
               @ replicate n (Api (IsReady (handle s) 0))
               @ [Api (GetValuesBulk (handle s) (max_samples s) 0 0 0 0 (overflow s))] \<and>
           out16 (device sdk (trace s @ [Api (RunBlock (handle s) 0 (samples s) (timebase s) 0)]
                    @ replicate n (Api (IsReady (handle s) 0)))) \<noteq> 0 \<and>
           (\<forall>k. 0 < k \<and> k < n \<longrightarrow>
              out16 (device sdk (trace s @ [Api (RunBlock (handle s) 0 (samples s) (timebase s) 0)]
                       @ replicate k (Api (IsReady (handle s) 0)))) = 0)"
proof -
  from assms(1) obtain s1 where s1: "poll sdk (start_block sdk s) = Some s1"
    and s': "s' = (get_values sdk s1)\<lparr>ready := 0\<rparr>"
    by (auto simp: run_block_Some)
  have eq: "ready (start_block sdk s) = check (start_block sdk s)"
    using assms(2,3) by simp
  from poll_returns[OF eq s1] obtain n where n: "0 < n"
    "s1 = (is_ready sdk ^^ n) (start_block sdk s)"
    "trace s1 = trace (start_block sdk s) @ replicate n (Api (IsReady (handle s) 0))"
    "out16 (device sdk (trace (start_block sdk s) @ replicate n (Api (IsReady (handle s) 0)))) \<noteq> 0"
    "\<forall>k. 0 < k \<and> k < n \<longrightarrow>
       out16 (device sdk (trace (start_block sdk s) @ replicate k (Api (IsReady (handle s) 0)))) = 0"
    using assms(3) by auto
  have "trace s' = trace s1 @ [Api (GetValuesBulk (handle s) (max_samples s) 0 0 0 0 (overflow s))]"
    unfolding s' n(2) by simp
  with n show ?thesis
    by (intro exI[of _ n]) simp
qed

section \<open>What each method does\<close>

lemma set_status_frame [simp]:
  "handle (set_status k v s) = handle s"
  "ready (set_status k v s) = ready s"
  "check (set_status k v s) = check s"
  "samples (set_status k v s) = samples s"
  "timebase (set_status k v s) = timebase s"
  "resolution (set_status k v s) = resolution s"
  "max_samples (set_status k v s) = max_samples s"
  "max_adc (set_status k v s) = max_adc s"
  "overflow (set_status k v s) = overflow s"
  "buffer (set_status k v s) = buffer s"
  "samples_per_seg (set_status k v s) = samples_per_seg s"
  "trace (set_status k v s) = trace s"
  "heap (set_status k v s) = heap s"
  "status (set_status k v s) = (status s)(k \<mapsto> v)"
  by (simp_all add: set_status_def)

lemma plot_buffer_frame [simp]:
  "handle (plot_buffer b s) = handle s"
  "ready (plot_buffer b s) = ready s"
  "check (plot_buffer b s) = check s"
  "samples (plot_buffer b s) = samples s"
  "timebase (plot_buffer b s) = timebase s"
  "resolution (plot_buffer b s) = resolution s"
  "max_samples (plot_buffer b s) = max_samples s"
  "max_adc (plot_buffer b s) = max_adc s"
  "overflow (plot_buffer b s) = overflow s"
  "buffer (plot_buffer b s) = buffer s"
  "samples_per_seg (plot_buffer b s) = samples_per_seg s"
  "heap (plot_buffer b s) = heap s"
  "status (plot_buffer b s) = status s"
  "trace (plot_buffer b s) = trace s @ [Plot (map sint (heap s (b ! 0))), Show]"
  by (simp_all add: plot_buffer_def plt_plot_def plt_show_def)

lemma open_unit_D:
  assumes "open_unit sdk res s = (v, s')"
  shows "trace s' = trace s @ [Api (OpenUnit (handle s) res), Api (MaximumValue (handle s') (max_adc s))]"
    and "handle s' = out16 (device sdk (trace s @ [Api (OpenUnit (handle s) res)]))"
    and "max_adc s' = out16 (device sdk (trace s'))"
    and "v = rstatus (device sdk (trace s @ [Api (OpenUnit (handle s) res)]))"
    and "status s' = (status s)(''openunit'' \<mapsto> v, ''maximumValue'' \<mapsto> rstatus (device sdk (trace s')))"
    and "ready s' = ready s" and "check s' = check s" and "samples s' = samples s"
    and "timebase s' = timebase s" and "resolution s' = resolution s"
    and "max_samples s' = max_samples s" and "overflow s' = overflow s"
    and "buffer s' = buffer s" and "samples_per_seg s' = samples_per_seg s"
  using assms by (auto simp: open_unit_def call_eq set_status_def)

lemma set_channel_D:
  assumes "set_channel sdk channel en coupling vrange offset s = (v, s')"
  shows "trace s' = trace s @ [Api (SetChannel (handle s) channel (int_of_bool en) coupling vrange offset)]"
    and "v = rstatus (device sdk (trace s'))"
    and "status s' = status s" and "handle s' = handle s" and "max_adc s' = max_adc s"
    and "ready s' = ready s" and "check s' = check s" and "samples s' = samples s"
    and "timebase s' = timebase s" and "resolution s' = resolution s"
    and "max_samples s' = max_samples s" and "overflow s' = overflow s"
    and "buffer s' = buffer s" and "samples_per_seg s' = samples_per_seg s"
  using assms by (auto simp: set_channel_def call_eq)

lemma set_simple_trigger_D:
  assumes "set_simple_trigger sdk en source vrange threshold_mv direction delay auto_ms s = Inr (v, s')"
  shows "\<exists>x. mV2adc sdk threshold_mv vrange (max_adc s) = Inr x \<and>
             trace s' = trace s @ [Api (SetSimpleTrigger (handle s) en source (py_int x) direction delay auto_ms)]"
    and "v = rstatus (device sdk (trace s'))"
    and "status s' = status s" and "handle s' = handle s" and "max_adc s' = max_adc s"
    and "ready s' = ready s" and "check s' = check s" and "samples s' = samples s"
    and "timebase s' = timebase s" and "resolution s' = resolution s"
    and "max_samples s' = max_samples s" and "overflow s' = overflow s"
    and "buffer s' = buffer s" and "samples_per_seg s' = samples_per_seg s"
  using assms by (auto simp: set_simple_trigger_def call_eq Let_def split: sum.splits)

lemma set_buffer_D:
  assumes "set_buffer sdk channel buf segment s = Inr (v, s')"
  shows "\<exists>a rest. buf = a # rest \<and>
             trace s' = trace s @ [Api (SetDataBuffer (handle s) channel a (max_samples s) segment 0)]"
    and "v = rstatus (device sdk (trace s'))"
    and "status s' = status s" and "handle s' = handle s" and "max_adc s' = max_adc s"
    and "ready s' = ready s" and "check s' = check s" and "samples s' = samples s"
    and "timebase s' = timebase s" and "resolution s' = resolution s"
    and "max_samples s' = max_samples s" and "overflow s' = overflow s"
    and "buffer s' = buffer s" and "samples_per_seg s' = samples_per_seg s"
  using assms by (auto simp: set_buffer_def call_eq split: list.splits)

lemma set_captures_D:
  assumes "set_captures sdk captures s = Inr (v, s')"
  shows "trace s' = trace s @ [Api (MemorySegments (handle s) captures (samples_per_seg s)),
                               Api (SetNoOfCaptures (handle s) captures)]"
    and "v = rstatus (device sdk (trace s'))"
    and "0 \<le> captures" and "overflow s' = replicate (nat captures) 0"
    and "samples_per_seg s' =
           out32 (device sdk (trace s @ [Api (MemorySegments (handle s) captures (samples_per_seg s))]))"
    and "status s' = (status s)(''MemorySegments'' \<mapsto>
             rstatus (device sdk (trace s @ [Api (MemorySegments (handle s) captures (samples_per_seg s))])),
           ''SetNoOfCaptures'' \<mapsto> v)"
    and "handle s' = handle s" and "max_adc s' = max_adc s"
    and "ready s' = ready s" and "check s' = check s" and "samples s' = samples s"
    and "timebase s' = timebase s" and "resolution s' = resolution s"
    and "max_samples s' = max_samples s" and "buffer s' = buffer s"
  using assms by (auto simp: set_captures_def call_eq set_status_def Let_def split: if_splits)

lemma stop_scope_D:
  assumes "stop_scope sdk s = (v, s')"
  shows "trace s' = trace s @ [Api (Stop (handle s)), Api (CloseUnit (handle s))]"
    and "v = rstatus (device sdk (trace s'))"
    and "status s' = (status s)(''stop'' \<mapsto> rstatus (device sdk (trace s @ [Api (Stop (handle s))])),
                                ''close'' \<mapsto> v)"
    and "handle s' = handle s" and "max_adc s' = max_adc s"
    and "ready s' = ready s" and "check s' = check s" and "samples s' = samples s"
    and "timebase s' = timebase s" and "resolution s' = resolution s"
    and "max_samples s' = max_samples s" and "overflow s' = overflow s"
    and "buffer s' = buffer s" and "samples_per_seg s' = samples_per_seg s"
  using assms by (auto simp: stop_scope_def call_eq set_status_def)

lemma run_block_D:
  assumes "run_block sdk s = Some s'"
  shows "ready s' = 0" and "check s' = check s" and "handle s' = handle s"
    and "max_adc s' = max_adc s" and "samples s' = samples s"
    and "timebase s' = timebase s" and "resolution s' = resolution s"
    and "buffer s' = buffer s" and "samples_per_seg s' = samples_per_seg s"
    and "max_samples s' = out32 (device sdk (trace s'))"
proof -
  from assms obtain s1 where s1: "poll sdk (start_block sdk s) = Some s1"
    and s': "s' = (get_values sdk s1)\<lparr>ready := 0\<rparr>"
    by (auto simp: run_block_Some)
  from poll_Some_D[OF s1] obtain n where n: "s1 = (is_ready sdk ^^ n) (start_block sdk s)"
    by blast
  show "ready s' = 0" and "check s' = check s" and "handle s' = handle s"
    and "max_adc s' = max_adc s" and "samples s' = samples s"
    and "timebase s' = timebase s" and "resolution s' = resolution s"
    and "buffer s' = buffer s" and "samples_per_seg s' = samples_per_seg s"
    unfolding s' n by simp_all
  show "max_samples s' = out32 (device sdk (trace s'))"
    unfolding s' by (simp add: get_values_def call_eq set_status_def)
qed

lemma initalise_parameters_Inr:
  "initalise_parameters sdk s = Inr s' \<longleftrightarrow>
     (\<exists>v0 s0 v1 s1 v2 s2 v3 s3 v4 s4 v5 s5 v6 s6 v7 s7.
        open_unit sdk (resolution s) s = (v0, s0) \<and>
        set_channel sdk 0 True 0 9 0 (set_status ''openunit'' v0 s0) = (v1, s1) \<and>
        set_channel sdk 1 False 0 9 0 (set_status ''set_source'' v1 s1) = (v2, s2) \<and>
        set_channel sdk 2 False 0 9 0 (set_status ''set_source'' v2 s2) = (v3, s3) \<and>
        set_channel sdk 3 False 0 9 0 (set_status ''set_source'' v3 s3) = (v4, s4) \<and>
        set_simple_trigger sdk 1 0 9 0 2 0 10 (set_status ''set_source'' v4 s4) = Inr (v5, s5) \<and>
        set_captures sdk 1 (set_status ''set_trigger'' v5 s5) = Inr (v6, s6) \<and>
        set_buffer sdk 0 (buffer s6) 0 (set_status ''set_captures'' v6 s6) = Inr (v7, s7) \<and>
        s' = set_status ''set_buffer'' v7 s7)"
  by (auto simp: initalise_parameters_def split: prod.splits sum.splits)

lemma initalise_parameters_D:
  assumes "initalise_parameters sdk s = Inr s'"
  shows "\<exists>x a rest. mV2adc sdk 0 9 (max_adc s') = Inr x \<and> buffer s = a # rest \<and>
           trace s' = trace s @
             [Api (OpenUnit (handle s) (resolution s)),
              Api (MaximumValue (handle s') (max_adc s)),
              Api (SetChannel (handle s') 0 1 0 9 0),
              Api (SetChannel (handle s') 1 0 0 9 0),
              Api (SetChannel (handle s') 2 0 0 9 0),
              Api (SetChannel (handle s') 3 0 0 9 0),
              Api (SetSimpleTrigger (handle s') 1 0 (py_int x) 2 0 10),
              Api (MemorySegments (handle s') 1 (samples_per_seg s)),
              Api (SetNoOfCaptures (handle s') 1),
              Api (SetDataBuffer (handle s') 0 a (max_samples s) 0 0)]"
    and "handle s' = out16 (device sdk (trace s @ [Api (OpenUnit (handle s) (resolution s))]))"
    and "max_adc s' = out16 (device sdk (trace s @
             [Api (OpenUnit (handle s) (resolution s)), Api (MaximumValue (handle s') (max_adc s))]))"
    and "status s' ''set_source'' = Some (rstatus (device sdk (trace s @
             [Api (OpenUnit (handle s) (resolution s)),
              Api (MaximumValue (handle s') (max_adc s)),
              Api (SetChannel (handle s') 0 1 0 9 0),
              Api (SetChannel (handle s') 1 0 0 9 0),
              Api (SetChannel (handle s') 2 0 0 9 0),
              Api (SetChannel (handle s') 3 0 0 9 0)])))"
    and "ready s' = ready s" and "check s' = check s" and "samples s' = samples s"
    and "timebase s' = timebase s" and "resolution s' = resolution s"
    and "max_samples s' = max_samples s" and "buffer s' = buffer s" and "overflow s' = [0]"
proof -
  from assms obtain v0 s0 v1 s1 v2 s2 v3 s3 v4 s4 v5 s5 v6 s6 v7 s7 where
    e0: "open_unit sdk (resolution s) s = (v0, s0)" and
    e1: "set_channel sdk 0 True 0 9 0 (set_status ''openunit'' v0 s0) = (v1, s1)" and
    e2: "set_channel sdk 1 False 0 9 0 (set_status ''set_source'' v1 s1) = (v2, s2)" and
    e3: "set_channel sdk 2 False 0 9 0 (set_status ''set_source'' v2 s2) = (v3, s3)" and
    e4: "set_channel sdk 3 False 0 9 0 (set_status ''set_source'' v3 s3) = (v4, s4)" and
    e5: "set_simple_trigger sdk 1 0 9 0 2 0 10 (set_status ''set_source'' v4 s4) = Inr (v5, s5)" and
    e6: "set_captures sdk 1 (set_status ''set_trigger'' v5 s5) = Inr (v6, s6)" and
    e7: "set_buffer sdk 0 (buffer s6) 0 (set_status ''set_captures'' v6 s6) = Inr (v7, s7)" and
    s': "s' = set_status ''set_buffer'' v7 s7"
    unfolding initalise_parameters_Inr by blast
  note d0 = open_unit_D[OF e0] and d1 = set_channel_D[OF e1] and d2 = set_channel_D[OF e2]
    and d3 = set_channel_D[OF e3] and d4 = set_channel_D[OF e4]
    and d5 = set_simple_trigger_D[OF e5] and d6 = set_captures_D[OF e6]
    and d7 = set_buffer_D[OF e7]
  have h: "handle s7 = handle s0" "handle s6 = handle s0" "handle s5 = handle s0"
    "handle s4 = handle s0" "handle s3 = handle s0" "handle s2 = handle s0" "handle s1 = handle s0"
    using d1(4) d2(4) d3(4) d4(4) d5(4) d6(7) d7(4) by simp_all
  have m: "max_adc s7 = max_adc s0" "max_adc s4 = max_adc s0"
    using d1(5) d2(5) d3(5) d4(5) d5(5) d6(8) d7(5) by simp_all
  have t4: "trace s4 = trace s @
             [Api (OpenUnit (handle s) (resolution s)),
              Api (MaximumValue (handle s0) (max_adc s)),
              Api (SetChannel (handle s0) 0 1 0 9 0),
              Api (SetChannel (handle s0) 1 0 0 9 0),
              Api (SetChannel (handle s0) 2 0 0 9 0),
              Api (SetChannel (handle s0) 3 0 0 9 0)]"
    using d0(1) d1(1) d2(1) d3(1) d4(1) h by (simp add: int_of_bool_def)
  from d5(1) m obtain x where x: "mV2adc sdk 0 9 (max_adc s0) = Inr x"
    "trace s5 = trace s4 @ [Api (SetSimpleTrigger (handle s0) 1 0 (py_int x) 2 0 10)]"
    using h by auto
  have b: "buffer s6 = buffer s"
    using d0(13) d1(13) d2(13) d3(13) d4(13) d5(13) d6(15) by simp
  from d7(1) b obtain a rest where a: "buffer s = a # rest"
    "trace s7 = trace s6 @ [Api (SetDataBuffer (handle s0) 0 a (max_samples s6) 0 0)]"
    using h by auto
  have ms: "max_samples s6 = max_samples s"
    using d0(11) d1(11) d2(11) d3(11) d4(11) d5(11) d6(14) by simp
  have sps: "samples_per_seg s5 = samples_per_seg s"
    using d0(14) d1(14) d2(14) d3(14) d4(14) d5(14) by simp
  have t6: "trace s6 = trace s5 @ [Api (MemorySegments (handle s0) 1 (samples_per_seg s)),
                               Api (SetNoOfCaptures (handle s0) 1)]"
    using d6(1) h sps by simp
  have hs': "handle s' = handle s0" and ms': "max_adc s' = max_adc s0"
    using s' h m by simp_all
  show "\<exists>x a rest. mV2adc sdk 0 9 (max_adc s') = Inr x \<and> buffer s = a # rest \<and>
           trace s' = trace s @
             [Api (OpenUnit (handle s) (resolution s)),
              Api (MaximumValue (handle s') (max_adc s)),
              Api (SetChannel (handle s') 0 1 0 9 0),
              Api (SetChannel (handle s') 1 0 0 9 0),
              Api (SetChannel (handle s') 2 0 0 9 0),
              Api (SetChannel (handle s') 3 0 0 9 0),
              Api (SetSimpleTrigger (handle s') 1 0 (py_int x) 2 0 10),
              Api (MemorySegments (handle s') 1 (samples_per_seg s)),
              Api (SetNoOfCaptures (handle s') 1),
              Api (SetDataBuffer (handle s') 0 a (max_samples s) 0 0)]"
    unfolding hs' ms' using x a t4 t6 ms s' by simp
  show "handle s' = out16 (device sdk (trace s @ [Api (OpenUnit (handle s) (resolution s))]))"
    unfolding hs' by (rule d0(2))
  show "max_adc s' = out16 (device sdk (trace s @
             [Api (OpenUnit (handle s) (resolution s)), Api (MaximumValue (handle s') (max_adc s))]))"
    unfolding hs' ms' using d0(3) d0(1) by simp
  have "status s' ''set_source'' = Some v4"
    using s' d7(3) d6(6) d5(3) by simp
  then show "status s' ''set_source'' = Some (rstatus (device sdk (trace s @
             [Api (OpenUnit (handle s) (resolution s)),
              Api (MaximumValue (handle s') (max_adc s)),
              Api (SetChannel (handle s') 0 1 0 9 0),
              Api (SetChannel (handle s') 1 0 0 9 0),
              Api (SetChannel (handle s') 2 0 0 9 0),
              Api (SetChannel (handle s') 3 0 0 9 0)])))"
    unfolding hs' using d4(2) t4 by simp
  show "ready s' = ready s"
    using s' d0(6) d1(6) d2(6) d3(6) d4(6) d5(6) d6(9) d7(6) by simp
  show "check s' = check s"
    using s' d0(7) d1(7) d2(7) d3(7) d4(7) d5(7) d6(10) d7(7) by simp
  show "samples s' = samples s"
    using s' d0(8) d1(8) d2(8) d3(8) d4(8) d5(8) d6(11) d7(8) by simp
  show "timebase s' = timebase s"
    using s' d0(9) d1(9) d2(9) d3(9) d4(9) d5(9) d6(12) d7(9) by simp
  show "resolution s' = resolution s"
    using s' d0(10) d1(10) d2(10) d3(10) d4(10) d5(10) d6(13) d7(10) by simp
  show "max_samples s' = max_samples s"
    using s' ms d7(11) by simp
  show "buffer s' = buffer s"
    using s' b d7(13) by simp
  show "overflow s' = [0]"
    using s' d7(12) d6(4) by simp
qed


lemma set_simple_trigger_returns:
  "mV2adc sdk threshold_mv vrange (max_adc s) = Inr x \<Longrightarrow>
   \<exists>v s'. set_simple_trigger sdk en source vrange threshold_mv direction delay auto_ms s = Inr (v, s')"
  by (simp add: set_simple_trigger_def Let_def split: prod.splits)

lemma set_captures_returns:
  "0 \<le> captures \<Longrightarrow> \<exists>v s'. set_captures sdk captures s = Inr (v, s')"
  by (simp add: set_captures_def Let_def split: prod.splits)

lemma set_buffer_returns:
  "buf \<noteq> [] \<Longrightarrow> \<exists>v s'. set_buffer sdk channel buf segment s = Inr (v, s')"
  by (cases buf) (simp_all add: set_buffer_def split: prod.splits)

lemma initalise_parameters_returns:
  assumes "\<And>m. \<exists>x. mV2adc sdk 0 9 m = Inr x" and "buffer s \<noteq> []"
  shows "\<exists>s'. initalise_parameters sdk s = Inr s'"
proof -
  obtain v0 s0 where e0: "open_unit sdk (resolution s) s = (v0, s0)"
    by fastforce
  obtain v1 s1 where e1: "set_channel sdk 0 True 0 9 0 (set_status ''openunit'' v0 s0) = (v1, s1)"
    by fastforce
  obtain v2 s2 where e2: "set_channel sdk 1 False 0 9 0 (set_status ''set_source'' v1 s1) = (v2, s2)"
    by fastforce
  obtain v3 s3 where e3: "set_channel sdk 2 False 0 9 0 (set_status ''set_source'' v2 s2) = (v3, s3)"
    by fastforce
  obtain v4 s4 where e4: "set_channel sdk 3 False 0 9 0 (set_status ''set_source'' v3 s3) = (v4, s4)"
    by fastforce
  obtain v5 s5 where e5:
    "set_simple_trigger sdk 1 0 9 0 2 0 10 (set_status ''set_source'' v4 s4) = Inr (v5, s5)"
    using assms(1) set_simple_trigger_returns by metis
  obtain v6 s6 where e6: "set_captures sdk 1 (set_status ''set_trigger'' v5 s5) = Inr (v6, s6)"
    using set_captures_returns[of 1] by fastforce
  have "buffer s6 = buffer s"
    using open_unit_D(13)[OF e0] set_channel_D(13)[OF e1] set_channel_D(13)[OF e2]
      set_channel_D(13)[OF e3] set_channel_D(13)[OF e4] set_simple_trigger_D(13)[OF e5]
      set_captures_D(15)[OF e6]
    by simp
  with assms(2) obtain v7 s7 where
    e7: "set_buffer sdk 0 (buffer s6) 0 (set_status ''set_captures'' v6 s6) = Inr (v7, s7)"
    using set_buffer_returns by metis
  from e0 e1 e2 e3 e4 e5 e6 e7 show ?thesis
    unfolding initalise_parameters_Inr by blast
qed

subsection \<open>Status codes that are overwritten\<close>

lemma set_status_twice [simp]: "set_status k v (set_status k w s) = set_status k v s"
  by (simp add: set_status_def)

lemma set_channel_set_status:
  "set_channel sdk channel en coupling vrange offset (set_status k w s) =
     (fst (set_channel sdk channel en coupling vrange offset s),
      set_status k w (snd (set_channel sdk channel en coupling vrange offset s)))"
  by (simp add: set_channel_def call_eq set_status_def)

lemma not_early_channel [simp]:
  "\<not> early_channel (t @ [Api (OpenUnit h res)])"
  "\<not> early_channel (t @ [Api (MaximumValue h m)])"
  "\<not> early_channel (t @ [Api (SetChannel h 3 en' cp rg off)])"
  "\<not> early_channel (t @ [Api (SetSimpleTrigger h en src thr dir d a)])"
  "\<not> early_channel (t @ [Api (MemorySegments h c n)])"
  "\<not> early_channel (t @ [Api (SetNoOfCaptures h c)])"
  "\<not> early_channel (t @ [Api (SetDataBuffer h ch ad n seg md)])"
  by (simp_all add: early_channel_def)

lemma device_with_early_status:
  "device (with_early_status f sdk) t =
     (if early_channel t then (device sdk t)\<lparr>rstatus := f t\<rparr> else device sdk t)"
  by (simp add: with_early_status_def)

lemma call_with_early_status:
  "\<not> early_channel (trace s @ [Api c]) \<Longrightarrow> call (with_early_status f sdk) c s = call sdk c s"
  by (simp add: call_def with_early_status_def)

lemma mV2adc_with_early_status [simp]: "mV2adc (with_early_status f sdk) = mV2adc sdk"
  by (simp add: with_early_status_def)

lemma open_unit_with_early_status [simp]:
  "open_unit (with_early_status f sdk) res s = open_unit sdk res s"
  by (simp add: open_unit_def call_eq set_status_def device_with_early_status early_channel_def)

lemma set_simple_trigger_with_early_status [simp]:
  "set_simple_trigger (with_early_status f sdk) en src rg mv dir d a s =
   set_simple_trigger sdk en src rg mv dir d a s"
  by (simp add: set_simple_trigger_def call_with_early_status Let_def split: sum.splits)

lemma set_captures_with_early_status [simp]:
  "set_captures (with_early_status f sdk) c s = set_captures sdk c s"
  by (simp add: set_captures_def call_eq set_status_def device_with_early_status early_channel_def)

lemma set_buffer_with_early_status [simp]:
  "set_buffer (with_early_status f sdk) ch buf seg s = set_buffer sdk ch buf seg s"
  by (simp add: set_buffer_def call_with_early_status split: list.splits)

lemma set_channel_3_with_early_status [simp]:
  "set_channel (with_early_status f sdk) 3 en cp rg off s = set_channel sdk 3 en cp rg off s"
  by (simp add: set_channel_def call_with_early_status)

lemma snd_set_channel_with_early_status [simp]:
  "snd (set_channel (with_early_status f sdk) c en cp rg off s) = snd (set_channel sdk c en cp rg off s)"
  by (simp add: set_channel_def call_def with_early_status_def Let_def)

lemma initalise_parameters_with_early_status:
  "initalise_parameters (with_early_status f sdk) s = initalise_parameters sdk s"
  by (simp add: initalise_parameters_def case_prod_beta set_channel_set_status
        cong: sum.case_cong)

section \<open>The script as a whole\<close>

lemma script_Inr:
  "script sdk = Some (Inr s) \<longleftrightarrow>
     (\<exists>t1 t2 t3 v1 t4 v2 t5 v3 t6 ret t7 t8.
        initalise_parameters sdk test = Inr t1 \<and>
        run_block sdk t1 = Some t2 \<and>
        run_block sdk (plot_buffer streaming_buffer t2) = Some t3 \<and>
        set_channel sdk 0 False 0 9 0 (plot_buffer streaming_buffer t3) = (v1, t4) \<and>
        set_channel sdk 1 True 0 9 0 (set_status ''set_source'' v1 t4) = (v2, t5) \<and>
        set_buffer sdk 1 (buffer t5) 0 (set_status ''set_source'' v2 t5) = Inr (v3, t6) \<and>
        set_simple_trigger sdk 1 1 9 0 2 0 10 (set_status ''set_buffer'' v3 t6) = Inr (ret, t7) \<and>
        run_block sdk t7 = Some t8 \<and>
        s = snd (stop_scope sdk (plot_buffer streaming_buffer t8)))"
  by (auto simp: script_def split: prod.splits sum.splits option.splits)

lemma test_simps [simp]:
  "ready test = 0" "check test = 0" "handle test = 0" "trace test = []"
  "samples test = 100000" "timebase test = 1" "resolution test = 1"
  "max_samples test = 100000" "buffer test = [0]" "overflow test = [0]"
  "max_adc test = 0" "samples_per_seg test = 0" "status test = Map.empty"
  by (simp_all add: test_def init_def streaming_buffer_def)




text \<open>The part of the script between the second and the third acquisition.\<close>

lemma reconfigure_D:
  assumes e1: "set_channel sdk 0 False 0 9 0 s = (v1, t4)"
    and e2: "set_channel sdk 1 True 0 9 0 (set_status ''set_source'' v1 t4) = (v2, t5)"
    and e3: "set_buffer sdk 1 (buffer t5) 0 (set_status ''set_source'' v2 t5) = Inr (v3, t6)"
    and e4: "set_simple_trigger sdk 1 1 9 0 2 0 10 (set_status ''set_buffer'' v3 t6) = Inr (ret, t7)"
  shows "map op_of (trace t7) = map op_of (trace s) @ [OpChannel, OpChannel, OpBuffer, OpTrigger]"
    and "ready t7 = ready s" and "check t7 = check s" and "handle t7 = handle s"
proof -
  note d1 = set_channel_D[OF e1] and d2 = set_channel_D[OF e2]
    and d3 = set_buffer_D[OF e3] and d4 = set_simple_trigger_D[OF e4]
  from d3(1) obtain a rest where
    t6: "trace t6 = trace t5 @ [Api (SetDataBuffer (handle t5) 1 a (max_samples t5) 0 0)]"
    by auto
  from d4(1) obtain x where
    t7: "trace t7 = trace t6 @ [Api (SetSimpleTrigger (handle t6) 1 1 (py_int x) 2 0 10)]"
    by auto
  show "map op_of (trace t7) = map op_of (trace s) @ [OpChannel, OpChannel, OpBuffer, OpTrigger]"
    using d1(1) d2(1) t6 t7 by simp
  show "ready t7 = ready s" using d1(6) d2(6) d3(6) d4(6) by simp
  show "check t7 = check s" using d1(7) d2(7) d3(7) d4(7) by simp
  show "handle t7 = handle s" using d1(4) d2(4) d3(4) d4(4) by simp
qed


lemma script_ends:
  assumes "script sdk = Some (Inr s)"
  shows "\<exists>t. trace s = t @ [Api (Stop (handle s)), Api (CloseUnit (handle s))]"
proof -
  from assms obtain t8 where s: "s = snd (stop_scope sdk (plot_buffer streaming_buffer t8))"
    unfolding script_Inr by blast
  note d = stop_scope_D[OF prod.collapse[symmetric], of sdk "plot_buffer streaming_buffer t8"]
  show ?thesis
    unfolding s using d(1) d(4) by simp
qed

lemma reachable_flags:
  assumes "reachable sdk s"
  shows "ready s = 0 \<and> check s = 0"
  using assms
proof (induction rule: reachable.induct)
  case (r_init tr mem handle0 buffer0 buffer_size)
  show ?case by (simp add: init_def)
next
  case (r_open_unit s res v s')
  then show ?case using open_unit_D(6,7) by metis
next
  case (r_set_channel s channel en coupling vrange offset v s')
  then show ?case using set_channel_D(6,7) by metis
next
  case (r_set_simple_trigger s en' source vrange threshold_mv direction delay auto_ms v s')
  then show ?case using set_simple_trigger_D(6,7) by metis
next
  case (r_set_buffer s channel buf segment v s')
  then show ?case using set_buffer_D(6,7) by metis
next
  case (r_set_captures s captures v s')
  then show ?case using set_captures_D(9,10) by metis
next
  case (r_initalise_parameters s s')
  then show ?case using initalise_parameters_D(5,6) by metis
next
  case (r_run_block s s')
  then show ?case using run_block_D(1,2) by metis
next
  case (r_stop_scope s v s')
  then show ?case using stop_scope_D(6,7) by metis
next
  case (r_plot_buffer s buf)
  then show ?case by simp
next
  case (r_set_status s k v)
  then show ?case by simp
qed

lemma script_reachable:
  assumes "script sdk = Some (Inr s)"
  shows "reachable sdk s"
proof -
  from assms obtain t1 t2 t3 v1 t4 v2 t5 v3 t6 ret t7 t8 where
    e0: "initalise_parameters sdk test = Inr t1" and
    r1: "run_block sdk t1 = Some t2" and
    r2: "run_block sdk (plot_buffer streaming_buffer t2) = Some t3" and
    c1: "set_channel sdk 0 False 0 9 0 (plot_buffer streaming_buffer t3) = (v1, t4)" and
    c2: "set_channel sdk 1 True 0 9 0 (set_status ''set_source'' v1 t4) = (v2, t5)" and
    c3: "set_buffer sdk 1 (buffer t5) 0 (set_status ''set_source'' v2 t5) = Inr (v3, t6)" and
    c4: "set_simple_trigger sdk 1 1 9 0 2 0 10 (set_status ''set_buffer'' v3 t6) = Inr (ret, t7)" and
    r3: "run_block sdk t7 = Some t8" and
    s: "s = snd (stop_scope sdk (plot_buffer streaming_buffer t8))"
    unfolding script_Inr by blast
  have "reachable sdk test" unfolding test_def by (rule r_init)
  then have "reachable sdk t1" using e0 by (rule r_initalise_parameters)
  then have "reachable sdk t2" using r1 by (rule r_run_block)
  then have "reachable sdk (plot_buffer streaming_buffer t2)" by (rule r_plot_buffer)
  then have "reachable sdk t3" using r2 by (rule r_run_block)
  then have "reachable sdk (plot_buffer streaming_buffer t3)" by (rule r_plot_buffer)
  then have "reachable sdk t4" using c1 by (rule r_set_channel)
  then have "reachable sdk (set_status ''set_source'' v1 t4)" by (rule r_set_status)
  then have "reachable sdk t5" using c2 by (rule r_set_channel)
  then have "reachable sdk (set_status ''set_source'' v2 t5)" by (rule r_set_status)
  then have "reachable sdk t6" using c3 by (rule r_set_buffer)
  then have "reachable sdk (set_status ''set_buffer'' v3 t6)" by (rule r_set_status)
  then have "reachable sdk t7" using c4 by (rule r_set_simple_trigger)
  then have "reachable sdk t8" using r3 by (rule r_run_block)
  then have "reachable sdk (plot_buffer streaming_buffer t8)" by (rule r_plot_buffer)
  then show ?thesis
    unfolding s using prod.collapse[symmetric] by (rule r_stop_scope)
qed

lemma plotted_append [simp]: "plotted (a @ b) = plotted a @ plotted b"
  by (induction a rule: plotted.induct) simp_all

lemma plotted_replicate_Api [simp]: "plotted (replicate n (Api c)) = []"
  by (induction n) simp_all




lemma script_returns:
  assumes mv: "\<And>m. \<exists>x. mV2adc sdk 0 9 m = Inr x"
    and rb: "\<And>s. ready s = 0 \<Longrightarrow> check s = 0 \<Longrightarrow> \<exists>s'. run_block sdk s = Some s'"
  shows "\<exists>s. script sdk = Some (Inr s)"
proof -
  obtain t1 where e0: "initalise_parameters sdk test = Inr t1"
    using initalise_parameters_returns[of sdk test] mv by auto
  note d0 = initalise_parameters_D[OF e0]
  have i1: "ready t1 = 0" "check t1 = 0" using d0(5,6) by simp_all
  obtain t2 where r1: "run_block sdk t1 = Some t2" using rb[OF i1] by blast
  have i2: "ready (plot_buffer streaming_buffer t2) = 0" "check (plot_buffer streaming_buffer t2) = 0"
    using run_block_D(1,2)[OF r1] i1 by simp_all
  obtain t3 where r2: "run_block sdk (plot_buffer streaming_buffer t2) = Some t3"
    using rb[OF i2] by blast
  have i3: "ready (plot_buffer streaming_buffer t3) = 0" "check (plot_buffer streaming_buffer t3) = 0"
    using run_block_D(1,2)[OF r2] i2 by simp_all
  obtain v1 t4 where c1: "set_channel sdk 0 False 0 9 0 (plot_buffer streaming_buffer t3) = (v1, t4)"
    by fastforce
  obtain v2 t5 where c2: "set_channel sdk 1 True 0 9 0 (set_status ''set_source'' v1 t4) = (v2, t5)"
    by fastforce
  have "buffer t5 = [0]"
    using set_channel_D(13)[OF c2] set_channel_D(13)[OF c1] run_block_D(8)[OF r2]
      run_block_D(8)[OF r1] d0(11) by simp
  then obtain v3 t6 where
    c3: "set_buffer sdk 1 (buffer t5) 0 (set_status ''set_source'' v2 t5) = Inr (v3, t6)"
    using set_buffer_returns[of "buffer t5"] by fastforce
  obtain ret t7 where
    c4: "set_simple_trigger sdk 1 1 9 0 2 0 10 (set_status ''set_buffer'' v3 t6) = Inr (ret, t7)"
    using mv set_simple_trigger_returns by metis
  have i7: "ready t7 = 0" "check t7 = 0"
    using reconfigure_D(2,3)[OF c1 c2 c3 c4] i3 by simp_all
  obtain t8 where r3: "run_block sdk t7 = Some t8" using rb[OF i7] by blast
  from e0 r1 r2 c1 c2 c3 c4 r3 show ?thesis
    unfolding script_Inr by blast
qed

section \<open>The program on the demonstration device\<close>

lemma demo_simps [simp]: "device demo = demo_device" "mV2adc demo = demo_mV2adc"
  by (simp_all add: demo_def)

lemma demo_start_simps [simp]:
  "ready demo_start = 0" "check demo_start = 0" "handle demo_start = 0"
  "samples demo_start = 3" "timebase demo_start = 1" "resolution demo_start = 1"
  "max_samples demo_start = 3" "overflow demo_start = [0]" "trace demo_start = []"
  "max_adc demo_start = 0" "buffer demo_start = [0]" "samples_per_seg demo_start = 0"
  by (simp_all add: demo_start_def init_def)

text \<open>The demonstration device reports ready at the second poll in a row.\<close>

lemma demo_second_poll:
  "out16 (demo_device (t @ [e, Api (IsReady h r), Api (IsReady h' r')])) = 1"
  by (simp add: demo_device_def quiet_def)

lemma demo_first_poll:
  "out16 (demo_device (t @ [Api (RunBlock h a b c d), Api (IsReady h' r')])) = 0"
  by (simp add: demo_device_def quiet_def)

lemma demo_run_block:
  assumes "ready s = 0" and "check s = 0"
  shows "\<exists>s'. run_block demo s = Some s'"
proof -
  have eq: "ready (start_block demo s) = check (start_block demo s)"
    using assms by simp
  have "out16 (device demo (trace (start_block demo s)
          @ replicate 2 (Api (IsReady (handle (start_block demo s)) (check (start_block demo s))))))
        \<noteq> check (start_block demo s)"
    using assms(2) demo_second_poll[of "trace s"] by (simp add: numeral_2_eq_2)
  from poll_terminates[OF eq _ this] show ?thesis
    by (auto simp: run_block_Some)
qed

lemma demo_mV2adc_9: "\<exists>x. mV2adc demo mv 9 m = Inr x"
  by (rule exI[of _ "mv * real_of_int (sint m) / 10000"]) (simp add: demo_mV2adc_def)

lemma demo_script: "\<exists>s. script demo = Some (Inr s)"
  using script_returns[of demo] demo_mV2adc_9 demo_run_block by blast

lemma demo_initalise: "\<exists>t. initalise_parameters demo demo_start = Inr t"
  using initalise_parameters_returns[of demo demo_start] demo_mV2adc_9 by simp

section \<open>The reader of capture archives\<close>

lemma fold_copy:
  "fold (\<lambda>key metadata. metadata(key := map_of a key)) ks m k =
     (if k \<in> set ks then map_of a k else m k)"
  by (induction ks arbitrary: m) auto

lemma copy_attrs_eq: "copy_attrs a = map_of a"
proof
  fix k
  show "copy_attrs a k = map_of a k"
    unfolding copy_attrs_def fold_copy
    by (auto simp: map_of_eq_None_iff[symmetric] simp del: map_of_eq_None_iff)
qed

lemma getitem_Inr: "getitem f name = Inr ob \<longleftrightarrow> f name = Some ob"
  by (simp add: getitem_def split: option.splits)

lemma row_Inr: "row ob i = Inr r \<longleftrightarrow> (\<exists>a rows. ob = Dataset a rows \<and> i < length rows \<and> r = rows ! i)"
  by (cases ob) auto

lemma channels_loop_Inr:
  assumes "channels_loop f ac chs tr = Inr tr'"
  shows "tr' = tr @ concat (map (channel_plots f ac) chs) \<and>
         (\<forall>ch\<in>set chs.
            (\<exists>a r. f (''adc_counts_'' @ attr_str ac ch) = Some (Dataset a r) \<and> r \<noteq> []) \<and>
            (\<exists>a r. f (''pha_'' @ attr_str ac ch) = Some (Dataset a r) \<and> 2 \<le> length r))"
  using assms
proof (induction chs arbitrary: tr)
  case Nil
  then show ?case by simp
next
  case (Cons ch rest)
  from Cons.prems obtain counts pha c0 p0 p1 where
    g1: "getitem f (''adc_counts_'' @ attr_str ac ch) = Inr counts" and
    g2: "getitem f (''pha_'' @ attr_str ac ch) = Inr pha" and
    r0: "row counts 0 = Inr c0" and r1: "row pha 0 = Inr p0" and r2: "row pha 1 = Inr p1" and
    rec: "channels_loop f ac rest (tr @ [Plot c0, Show, PlotXY p0 p1 ''bo-'', Show]) = Inr tr'"
    by (auto split: sum.splits)
  from g1 r0 obtain a r where c: "f (''adc_counts_'' @ attr_str ac ch) = Some (Dataset a r)"
    "r \<noteq> []" "c0 = r ! 0"
    by (auto simp: getitem_Inr row_Inr)
  from g2 r1 r2 obtain a' r' where p: "f (''pha_'' @ attr_str ac ch) = Some (Dataset a' r')"
    "2 \<le> length r'" "p0 = r' ! 0" "p1 = r' ! 1"
    by (auto simp: getitem_Inr row_Inr)
  have "channel_plots f ac ch = [Plot c0, Show, PlotXY p0 p1 ''bo-'', Show]"
    using c p by (simp add: channel_plots_def rows_of_def)
  with Cons.IH[OF rec] c p show ?case by auto
qed

lemma plots_per_channel:
  "length (filter (\<lambda>e. op_of e = OpPlot) (concat (map (channel_plots f ac) chs))) = length chs"
  "length (filter (\<lambda>e. op_of e = OpPlotXY) (concat (map (channel_plots f ac) chs))) = length chs"
  by (induction chs) (simp_all add: channel_plots_def)

lemma str_int_0: "str_int 0 = ''0''"
  by (simp add: str_int_def digit_def)

lemma str_int_2: "str_int 2 = ''2''"
  by (simp add: str_int_def digit_def)

lemma demo_read:
  "read_hdf5 demo_fs ''capture.hdf5'' =
     Inr [Plot [1, 2, 3], Show, PlotXY [0, 1] [5, 7] ''bo-'', Show,
          Plot [- 1, - 2, - 3], Show, PlotXY [0, 1] [9, 3] ''bo-'', Show]"
  by (simp add: read_hdf5_def demo_fs_def demo_file_def getitem_def copy_attrs_eq
      upt_rec[of 0] upt_rec[of 1] upt_rec[of 2] str_int_0 str_int_2 numeral_2_eq_2)

section \<open>Status codes decide nothing\<close>

lemma same_but_status_D:
  assumes "same_but_status a b"
  obtains st where "a = b\<lparr>status := st\<rparr>"
proof -
  from assms have "a = b\<lparr>status := status a\<rparr>"
    by (cases a, cases b) (simp add: same_but_status_def forget_status_def)
  then show ?thesis by (rule that)
qed

lemmas same_defs = same_but_status_def forget_status_def

lemma same_but_status_refl [simp]: "same_but_status a a"
  by (simp add: same_but_status_def)

lemma same_but_status_sym: "same_but_status a b \<Longrightarrow> same_but_status b a"
  by (simp add: same_but_status_def)

lemma same_but_status_fields:
  assumes "same_but_status a b"
  shows "ready a = ready b" and "check a = check b" and "buffer a = buffer b"
    and "resolution a = resolution b" and "heap a = heap b" and "trace a = trace b"
proof -
  from assms obtain st where a: "a = b\<lparr>status := st\<rparr>" by (rule same_but_status_D)
  show "ready a = ready b" and "check a = check b" and "buffer a = buffer b"
    and "resolution a = resolution b" and "heap a = heap b" and "trace a = trace b"
    unfolding a by simp_all
qed

lemma same_set_status [intro]:
  assumes "same_but_status a b"
  shows "same_but_status (set_status k v a) (set_status k' w b)"
proof -
  from assms obtain st where a: "a = b\<lparr>status := st\<rparr>" by (rule same_but_status_D)
  show ?thesis
    unfolding a by (simp add: same_defs set_status_def)
qed

lemma same_plot_buffer [intro]:
  assumes "same_but_status a b"
  shows "same_but_status (plot_buffer buf a) (plot_buffer buf b)"
proof -
  from assms obtain st where a: "a = b\<lparr>status := st\<rparr>" by (rule same_but_status_D)
  show ?thesis
    unfolding a by (simp add: same_defs plot_buffer_def plt_plot_def plt_show_def)
qed

lemma device_with_status [simp]:
  "out16 (device (with_status f sdk) t) = out16 (device sdk t)"
  "out32 (device (with_status f sdk) t) = out32 (device sdk t)"
  "out_arr (device (with_status f sdk) t) = out_arr (device sdk t)"
  "writes (device (with_status f sdk) t) = writes (device sdk t)"
  "rstatus (device (with_status f sdk) t) = f t"
  "mV2adc (with_status f sdk) = mV2adc sdk"
  by (simp_all add: with_status_def)

lemma same_open_unit [intro]:
  assumes "same_but_status a b"
  shows "same_but_status (snd (open_unit (with_status f sdk) res a)) (snd (open_unit sdk res b))"
proof -
  from assms obtain st where a: "a = b\<lparr>status := st\<rparr>" by (rule same_but_status_D)
  show ?thesis
    unfolding a by (simp add: same_defs open_unit_def call_eq set_status_def)
qed

lemma same_set_channel [intro]:
  assumes "same_but_status a b"
  shows "same_but_status (snd (set_channel (with_status f sdk) c en cp rg off a))
                   (snd (set_channel sdk c en cp rg off b))"
proof -
  from assms obtain st where a: "a = b\<lparr>status := st\<rparr>" by (rule same_but_status_D)
  show ?thesis
    unfolding a by (simp add: same_defs set_channel_def call_eq)
qed

lemma same_stop_scope [intro]:
  assumes "same_but_status a b"
  shows "same_but_status (snd (stop_scope (with_status f sdk) a)) (snd (stop_scope sdk b))"
proof -
  from assms obtain st where a: "a = b\<lparr>status := st\<rparr>" by (rule same_but_status_D)
  show ?thesis
    unfolding a by (simp add: same_defs stop_scope_def call_eq set_status_def)
qed

lemma same_set_simple_trigger:
  assumes "same_but_status a b"
  shows "rel_sum (=) (\<lambda>p q. same_but_status (snd p) (snd q))
     (set_simple_trigger (with_status f sdk) en src rg mv dir d au a)
     (set_simple_trigger sdk en src rg mv dir d au b)"
proof -
  from assms obtain st where a: "a = b\<lparr>status := st\<rparr>" by (rule same_but_status_D)
  show ?thesis
    unfolding a by (simp add: same_defs set_simple_trigger_def call_eq Let_def split: sum.splits)
qed

lemma same_set_captures:
  assumes "same_but_status a b"
  shows "rel_sum (=) (\<lambda>p q. same_but_status (snd p) (snd q))
     (set_captures (with_status f sdk) c a) (set_captures sdk c b)"
proof -
  from assms obtain st where a: "a = b\<lparr>status := st\<rparr>" by (rule same_but_status_D)
  show ?thesis
    unfolding a by (simp add: same_defs set_captures_def call_eq set_status_def Let_def)
qed

lemma same_set_buffer:
  assumes "same_but_status a b"
  shows "rel_sum (=) (\<lambda>p q. same_but_status (snd p) (snd q))
     (set_buffer (with_status f sdk) ch buf seg a) (set_buffer sdk ch buf seg b)"
proof -
  from assms obtain st where a: "a = b\<lparr>status := st\<rparr>" by (rule same_but_status_D)
  show ?thesis
    unfolding a by (simp add: same_defs set_buffer_def call_eq split: list.splits)
qed

lemma same_start_block [intro]:
  assumes "same_but_status a b"
  shows "same_but_status (start_block (with_status f sdk) a) (start_block sdk b)"
proof -
  from assms obtain st where a: "a = b\<lparr>status := st\<rparr>" by (rule same_but_status_D)
  show ?thesis
    unfolding a by (simp add: same_defs start_block_def call_eq set_status_def)
qed

lemma same_is_ready [intro]:
  assumes "same_but_status a b"
  shows "same_but_status (is_ready (with_status f sdk) a) (is_ready sdk b)"
proof -
  from assms obtain st where a: "a = b\<lparr>status := st\<rparr>" by (rule same_but_status_D)
  show ?thesis
    unfolding a by (simp add: same_defs is_ready_def call_eq set_status_def)
qed

lemma same_get_values [intro]:
  assumes "same_but_status a b"
  shows "same_but_status ((get_values (with_status f sdk) a)\<lparr>ready := 0\<rparr>) ((get_values sdk b)\<lparr>ready := 0\<rparr>)"
proof -
  from assms obtain st where a: "a = b\<lparr>status := st\<rparr>" by (rule same_but_status_D)
  show ?thesis
    unfolding a by (simp add: same_defs get_values_def call_eq set_status_def)
qed

lemma same_iter:
  "same_but_status a b \<Longrightarrow>
   same_but_status ((is_ready (with_status f sdk) ^^ n) a) ((is_ready sdk ^^ n) b)"
  by (induction n) auto

text \<open>Two loops whose states agree turn by turn on the flag end together.\<close>

lemma poll_sim:
  assumes step: "\<And>n. rel ((is_ready A ^^ n) a) ((is_ready B ^^ n) b)"
    and flags: "\<And>x y. rel x y \<Longrightarrow> ready x = ready y \<and> check x = check y"
    and ret: "poll A a = Some x"
  shows "\<exists>y. poll B b = Some y \<and> rel x y"
proof -
  from poll_Some_D[OF ret] obtain n where n: "x = (is_ready A ^^ n) a" "ready x \<noteq> check a"
    "\<forall>k<n. ready ((is_ready A ^^ k) a) = check a"
    by blast
  have c: "check a = check b" using step[of 0] flags by simp
  have "\<forall>k<n. ready ((is_ready B ^^ k) b) = check b"
    using n(3) step flags c by metis
  then have "poll B b = poll B ((is_ready B ^^ n) b)"
    by (rule poll_skip)
  also have "ready ((is_ready B ^^ n) b) \<noteq> check b"
    using n(1,2) step[of n] flags c by metis
  then have "poll B ((is_ready B ^^ n) b) = Some ((is_ready B ^^ n) b)"
    by (subst poll.simps) (simp add: sint16_eq)
  finally show ?thesis using step[of n] n(1) by simp
qed

lemma same_poll:
  assumes "same_but_status a b"
  shows "rel_option same_but_status (poll (with_status f sdk) a) (poll sdk b)"
proof (cases "poll (with_status f sdk) a")
  case (Some x)
  from poll_sim[where rel = same_but_status, OF _ _ Some, of sdk b]
  obtain y where "poll sdk b = Some y" "same_but_status x y"
    using same_iter[OF assms] same_but_status_fields by blast
  with Some show ?thesis by simp
next
  case None
  show ?thesis
  proof (cases "poll sdk b")
    case (Some y)
    from poll_sim[where rel = "\<lambda>p q. same_but_status q p", OF _ _ Some, of "with_status f sdk" a]
    obtain x where "poll (with_status f sdk) a = Some x"
      using same_iter[OF assms] same_but_status_fields by metis
    with None show ?thesis by simp
  next
    case None': None
    with None show ?thesis by simp
  qed
qed

lemma same_run_block:
  assumes "same_but_status a b"
  shows "rel_option same_but_status (run_block (with_status f sdk) a) (run_block sdk b)"
proof -
  have "same_but_status (start_block (with_status f sdk) a) (start_block sdk b)"
    using assms by auto
  from same_poll[OF this, where f = f and sdk = sdk] show ?thesis
    unfolding run_block_def
    by (cases "poll (with_status f sdk) (start_block (with_status f sdk) a)";
        cases "poll sdk (start_block sdk b)") auto
qed


subsection \<open>Running both programs side by side\<close>

lemma rel_case_sum:
  assumes "rel_sum (=) P x y"
    and "\<And>p q. P p q \<Longrightarrow> rel_sum (=) Q (k1 p) (k2 q)"
  shows "rel_sum (=) Q (case x of Inl e \<Rightarrow> Inl e | Inr p \<Rightarrow> k1 p)
                       (case y of Inl e \<Rightarrow> Inl e | Inr q \<Rightarrow> k2 q)"
  using assms by (cases x; cases y) auto

lemma rel_case_sum_option:
  assumes "rel_sum (=) P x y"
    and "\<And>p q. P p q \<Longrightarrow> rel_option (rel_sum (=) Q) (k1 p) (k2 q)"
  shows "rel_option (rel_sum (=) Q) (case x of Inl e \<Rightarrow> Some (Inl e) | Inr p \<Rightarrow> k1 p)
                                    (case y of Inl e \<Rightarrow> Some (Inl e) | Inr q \<Rightarrow> k2 q)"
  using assms by (cases x; cases y) auto

lemma rel_case_option:
  assumes "rel_option P x y"
    and "\<And>p q. P p q \<Longrightarrow> rel_option Q (k1 p) (k2 q)"
  shows "rel_option Q (case x of None \<Rightarrow> None | Some p \<Rightarrow> k1 p)
                      (case y of None \<Rightarrow> None | Some q \<Rightarrow> k2 q)"
  using assms by (cases x; cases y) auto

lemma same_set_buffer':
  assumes "same_but_status a b" and "buf = buf'"
  shows "rel_sum (=) (\<lambda>p q. same_but_status (snd p) (snd q))
     (set_buffer (with_status f sdk) ch buf seg a) (set_buffer sdk ch buf' seg b)"
  unfolding assms(2) using assms(1) by (rule same_set_buffer)

lemma same_initalise_parameters:
  assumes "same_but_status a b"
  shows "rel_sum (=) same_but_status
           (initalise_parameters (with_status f sdk) a) (initalise_parameters sdk b)"
proof -
  have r: "resolution a = resolution b"
    using assms by (rule same_but_status_fields)
  show ?thesis
    unfolding initalise_parameters_def case_prod_beta r
    apply (rule rel_case_sum[OF same_set_simple_trigger])
     apply (intro same_set_status same_set_channel same_open_unit assms)
    apply (rule rel_case_sum[OF same_set_captures])
     apply (intro same_set_status, assumption)
    apply (rule rel_case_sum[OF same_set_buffer'])
      apply (intro same_set_status, assumption)
     apply (erule same_but_status_fields)
    apply simp
    apply (intro same_set_status, assumption)
    done
qed


lemma same_script:
  "rel_option (rel_sum (=) same_but_status) (script (with_status f sdk)) (script sdk)"
  unfolding script_def case_prod_beta
  apply (rule rel_case_sum_option[OF same_initalise_parameters])
   apply (rule same_but_status_refl)
  apply (rule rel_case_option[OF same_run_block], assumption)
  apply (rule rel_case_option[OF same_run_block])
   apply (intro same_plot_buffer, assumption)
  apply (rule rel_case_sum_option[OF same_set_buffer'])
    apply (intro same_set_status same_set_channel same_plot_buffer, assumption)
   apply (rule same_but_status_fields(3))
   apply (intro same_set_status same_set_channel same_plot_buffer, assumption)
  apply (rule rel_case_sum_option[OF same_set_simple_trigger])
   apply (intro same_set_status, assumption)
  apply (rule rel_case_option[OF same_run_block], assumption)
  apply simp
  apply (intro same_stop_scope same_plot_buffer, assumption)
  done

lemma rel_option_same:
  "rel_option same_but_status x y \<Longrightarrow> map_option forget_status x = map_option forget_status y"
  by (cases x; cases y) (auto simp: same_but_status_def)

lemma rel_sum_same:
  "rel_sum (=) same_but_status x y \<Longrightarrow> map_sum id forget_status x = map_sum id forget_status y"
  by (cases x; cases y) (auto simp: same_but_status_def)

lemma rel_option_sum_same:
  "rel_option (rel_sum (=) same_but_status) x y \<Longrightarrow>
   map_option (map_sum id forget_status) x = map_option (map_sum id forget_status) y"
  by (cases x; cases y) (auto dest: rel_sum_same)

section \<open>The properties of the specification\<close>

text \<open>
  Claim C1.  A call of \<^verbatim>\<open>run_block\<close> that is entered with the ready flag and the check
  value both 0 and that returns has done exactly this, in this order: one
  \<^verbatim>\<open>ps5000aRunBlock\<close>, then \<open>n \<ge> 1\<close> calls of \<^verbatim>\<open>ps5000aIsReady\<close>, each made while the flag
  still was 0, then one \<^verbatim>\<open>ps5000aGetValuesBulk\<close>.  The device left the flag at 0 in all
  polls but the last, and changed it in the last: the data are read back only after
  the flag has changed.
\<close>

theorem run_block_polls_before_read:
  assumes "run_block sdk s = Some s'" and "ready s = 0" and "check s = 0"
  shows "\<exists>n>0.
           trace s' =
             trace s @ [Api (RunBlock (handle s) 0 (samples s) (timebase s) 0)]
               @ replicate n (Api (IsReady (handle s) 0))
               @ [Api (GetValuesBulk (handle s) (max_samples s) 0 0 0 0 (overflow s))] \<and>
           out16 (device sdk (trace s @ [Api (RunBlock (handle s) 0 (samples s) (timebase s) 0)]
                    @ replicate n (Api (IsReady (handle s) 0)))) \<noteq> 0 \<and>
           (\<forall>k. 0 < k \<and> k < n \<longrightarrow>
              out16 (device sdk (trace s @ [Api (RunBlock (handle s) 0 (samples s) (timebase s) 0)]
                       @ replicate k (Api (IsReady (handle s) 0)))) = 0)"
  using assms by (rule run_block_trace)

theorem run_block_polls_before_read_witness:
  "ready demo_start = 0 \<and> check demo_start = 0 \<and>
   (\<exists>s'. run_block demo demo_start = Some s' \<and>
      trace s' = [Api (RunBlock 0 0 3 1 0), Api (IsReady 0 0), Api (IsReady 0 0),
                  Api (GetValuesBulk 0 3 0 0 0 0 [0])])"
proof -
  obtain s' where s': "run_block demo demo_start = Some s'"
    using demo_run_block[of demo_start] by auto
  from run_block_polls_before_read[OF s'] obtain n where n: "0 < n"
    "trace s' = [Api (RunBlock 0 0 3 1 0)] @ replicate n (Api (IsReady 0 0))
        @ [Api (GetValuesBulk 0 3 0 0 0 0 [0])]"
    "out16 (demo_device ([Api (RunBlock 0 0 3 1 0)] @ replicate n (Api (IsReady 0 0)))) \<noteq> 0"
    "\<forall>k. 0 < k \<and> k < n \<longrightarrow>
       out16 (demo_device ([Api (RunBlock 0 0 3 1 0)] @ replicate k (Api (IsReady 0 0)))) = 0"
    by auto
  have "n \<noteq> 1"
    using n(3) demo_first_poll[of "[]"] by auto
  moreover have "\<not> 2 < n"
    using n(4) demo_second_poll[of "[]" "Api (RunBlock 0 0 3 1 0)"] by (auto simp: numeral_2_eq_2)
  ultimately have "n = 2" using n(1) by arith
  with n(2) s' show ?thesis by (simp add: numeral_2_eq_2)
qed

text \<open>
  Claim C2.  Whenever \<^verbatim>\<open>set_simple_trigger\<close> reaches the API, the threshold it passes to
  \<^verbatim>\<open>ps5000aSetSimpleTrigger\<close> is \<^verbatim>\<open>int(mV2adc(threshold_mv, range, self.max_adc))\<close>, with
  the other arguments passed through.  The value of \<^verbatim>\<open>self.max_adc\<close> after
  \<^verbatim>\<open>initalise_parameters\<close> is the one the device gave to \<^verbatim>\<open>ps5000aMaximumValue\<close> in
  \<^verbatim>\<open>open_unit\<close>, and the trigger set there is converted with it.
\<close>

theorem set_simple_trigger_threshold:
  assumes "set_simple_trigger sdk en source vrange threshold_mv direction delay auto_ms s = Inr (v, s')"
    and "initalise_parameters sdk s0 = Inr t"
  shows "(\<exists>x. mV2adc sdk threshold_mv vrange (max_adc s) = Inr x \<and>
            trace s' = trace s @
              [Api (SetSimpleTrigger (handle s) en source (py_int x) direction delay auto_ms)]) \<and>
         max_adc t = out16 (device sdk (trace s0 @
              [Api (OpenUnit (handle s0) (resolution s0)), Api (MaximumValue (handle t) (max_adc s0))])) \<and>
         (\<exists>x. mV2adc sdk 0 9 (max_adc t) = Inr x \<and>
            Api (SetSimpleTrigger (handle t) 1 0 (py_int x) 2 0 10) \<in> set (trace t))"
proof -
  from initalise_parameters_D(1)[OF assms(2)] have
    "\<exists>x. mV2adc sdk 0 9 (max_adc t) = Inr x \<and>
            Api (SetSimpleTrigger (handle t) 1 0 (py_int x) 2 0 10) \<in> set (trace t)"
    by auto
  with set_simple_trigger_D(1)[OF assms(1)] initalise_parameters_D(3)[OF assms(2)]
  show ?thesis by blast
qed

theorem set_simple_trigger_threshold_witness:
  "\<exists>t v s'. initalise_parameters demo demo_start = Inr t \<and>
      set_simple_trigger demo 1 0 9 2501 2 0 10 t = Inr (v, s') \<and>
      max_adc t = 32512 \<and>
      trace s' = trace t @ [Api (SetSimpleTrigger 16384 1 0 8131 2 0 10)]"
proof -
  obtain t where t: "initalise_parameters demo demo_start = Inr t"
    using demo_initalise by blast
  obtain v s' where s': "set_simple_trigger demo 1 0 9 2501 2 0 10 t = Inr (v, s')"
    using set_simple_trigger_returns[of demo 2501 9 t] demo_mV2adc_9[of 2501 "max_adc t"] by blast
  have h: "handle t = 16384"
    using initalise_parameters_D(2)[OF t] by (simp add: demo_device_def quiet_def)
  from set_simple_trigger_threshold[OF s' t] obtain x where
    m: "max_adc t = out16 (device demo (trace demo_start @
          [Api (OpenUnit (handle demo_start) (resolution demo_start)),
           Api (MaximumValue (handle t) (max_adc demo_start))]))"
    and x: "demo_mV2adc 2501 9 (max_adc t) = Inr x"
      "trace s' = trace t @ [Api (SetSimpleTrigger (handle t) 1 0 (py_int x) 2 0 10)]"
    by auto
  from m have m': "max_adc t = 32512"
    by (simp add: demo_device_def quiet_def)
  from x(1) m' have xe: "x = 2501 * 32512 / 10000"
    by (simp add: demo_mV2adc_def)
  have "py_int (2501 * 32512 / 10000) = 8131"
    by (simp add: py_int_def)
  then have "py_int x = 8131"
    unfolding xe .
  with t s' m' x(2) h show ?thesis by auto
qed



text \<open>
  Claim C4.  When \<^verbatim>\<open>read_hdf5\<close> returns, the file holds a \<^verbatim>\<open>metadata\<close> object with an
  attribute \<^verbatim>\<open>active_channels\<close> of some length \<open>n\<close>, and for every index below \<open>n\<close>
  datasets named \<^verbatim>\<open>adc_counts_<id>\<close> and \<^verbatim>\<open>pha_<id>\<close>, where \<^verbatim>\<open><id>\<close> is the entry as a
  string.  What was rendered is, entry after entry, the first row of the counts, shown,
  then the first row of the histogram against the second with the format \<^verbatim>\<open>'bo-'\<close>,
  shown: \<open>n\<close> waveform plots and \<open>n\<close> histogram plots in all.
\<close>

theorem read_hdf5_plots:
  assumes "read_hdf5 fs filename = Inr tr"
  shows "\<exists>f g ac n.
           fs filename = Some f \<and> f ''metadata'' = Some g \<and>
           map_of (attrs g) ''active_channels'' = Some ac \<and> attr_len ac = Inr n \<and>
           tr = concat (map (channel_plots f ac) [0..<n]) \<and>
           (\<forall>ch<n.
              (\<exists>a r. f (''adc_counts_'' @ attr_str ac ch) = Some (Dataset a r) \<and> r \<noteq> []) \<and>
              (\<exists>a r. f (''pha_'' @ attr_str ac ch) = Some (Dataset a r) \<and> 2 \<le> length r)) \<and>
           length (filter (\<lambda>e. op_of e = OpPlot) tr) = n \<and>
           length (filter (\<lambda>e. op_of e = OpPlotXY) tr) = n"
proof -
  from assms obtain f g ac n where
    f: "fs filename = Some f" and g: "f ''metadata'' = Some g" and
    ac: "map_of (attrs g) ''active_channels'' = Some ac" and n: "attr_len ac = Inr n" and
    loop: "channels_loop f ac [0..<n] [] = Inr tr"
    by (auto simp: read_hdf5_def getitem_def copy_attrs_eq Let_def split: option.splits sum.splits)
  from channels_loop_Inr[OF loop] have
    tr: "tr = concat (map (channel_plots f ac) [0..<n])" and
    ds: "\<forall>ch<n.
          (\<exists>a r. f (''adc_counts_'' @ attr_str ac ch) = Some (Dataset a r) \<and> r \<noteq> []) \<and>
          (\<exists>a r. f (''pha_'' @ attr_str ac ch) = Some (Dataset a r) \<and> 2 \<le> length r)"
    by auto
  have "length (filter (\<lambda>e. op_of e = OpPlot) tr) = n"
    "length (filter (\<lambda>e. op_of e = OpPlotXY) tr) = n"
    unfolding tr by (simp_all add: plots_per_channel)
  with f g ac n tr ds show ?thesis by blast
qed

theorem read_hdf5_plots_witness:
  "\<exists>tr. read_hdf5 demo_fs ''capture.hdf5'' = Inr tr \<and>
      tr = concat (map (channel_plots demo_file (IntArray [0, 2])) [0..<2]) \<and>
      length (filter (\<lambda>e. op_of e = OpPlot) tr) = 2 \<and>
      length (filter (\<lambda>e. op_of e = OpPlotXY) tr) = 2"
proof -
  from read_hdf5_plots[OF demo_read] obtain f g ac n where
    f: "demo_fs ''capture.hdf5'' = Some f" and g: "f ''metadata'' = Some g" and
    ac: "map_of (attrs g) ''active_channels'' = Some ac" and n: "attr_len ac = Inr n" and
    tr: "[Plot [1, 2, 3], Show, PlotXY [0, 1] [5, 7] ''bo-'', Show,
          Plot [- 1, - 2, - 3], Show, PlotXY [0, 1] [9, 3] ''bo-'', Show] =
         concat (map (channel_plots f ac) [0..<n])" and
    c: "length (filter (\<lambda>e. op_of e = OpPlot)
          [Plot [1, 2, 3], Show, PlotXY [0, 1] [5, 7] ''bo-'', Show,
           Plot [- 1, - 2, - 3], Show, PlotXY [0, 1] [9, 3] ''bo-'', Show]) = n"
    by blast
  from f have f': "f = demo_file" by (simp add: demo_fs_def)
  from g have g': "g = Group [(''n_captures'', Scalar 2), (''active_channels'', IntArray [0, 2])]"
    unfolding f' by (simp add: demo_file_def)
  from ac have ac': "ac = IntArray [0, 2]" unfolding g' by simp
  from c have n': "n = 2" by simp
  show ?thesis
    using demo_read tr[unfolded f' ac' n', symmetric] by simp
qed

text \<open>
  Claim C5.  No status code decides anything.  Let the driver return any other status
  codes \<open>f\<close>, its other answers unchanged: the script then ends in the same way (it
  does not return, or dies of the same exception, or runs to its end), with the same
  trace of calls and the same final state but for the contents of the status
  dictionary; the same holds for \<^verbatim>\<open>run_block\<close> and \<^verbatim>\<open>initalise_parameters\<close> from any
  state.
\<close>

theorem status_never_inspected:
  "map_option (map_sum id forget_status) (script (with_status f sdk)) =
     map_option (map_sum id forget_status) (script sdk) \<and>
   map_option forget_status (run_block (with_status f sdk) s) =
     map_option forget_status (run_block sdk s) \<and>
   map_sum id forget_status (initalise_parameters (with_status f sdk) s) =
     map_sum id forget_status (initalise_parameters sdk s)"
  using rel_option_sum_same[OF same_script] rel_option_same[OF same_run_block]
    rel_sum_same[OF same_initalise_parameters] same_but_status_refl
  by blast

theorem status_never_inspected_witness:
  "\<exists>s s'. script demo = Some (Inr s) \<and> script (with_status (\<lambda>t. 99) demo) = Some (Inr s') \<and>
      trace s' = trace s \<and> heap s' = heap s \<and> handle s' = handle s"
proof -
  obtain s where s: "script demo = Some (Inr s)"
    using demo_script by blast
  from status_never_inspected[of "\<lambda>t. 99" demo] s
  have "map_option (map_sum id forget_status) (script (with_status (\<lambda>t. 99) demo)) =
      Some (Inr (forget_status s))"
    by simp
  then obtain z where z: "script (with_status (\<lambda>t. 99) demo) = Some z"
    "map_sum id forget_status z = Inr (forget_status s)"
    by auto
  from z(2) obtain s' where "z = Inr s'" and f: "forget_status s' = forget_status s"
    by (cases z) auto
  with z(1) have s': "script (with_status (\<lambda>t. 99) demo) = Some (Inr s')"
    by simp
  from f have "same_but_status s' s" by (simp add: same_but_status_def)
  then have "trace s' = trace s" "heap s' = heap s" "handle s' = handle s"
    by (auto elim: same_but_status_D)
  with s s' show ?thesis by blast
qed

text \<open>
  Claim C6.  \<^verbatim>\<open>run_block\<close> blocks: entered with the ready flag equal to the check value,
  it returns if and only if the device answers some poll, the \<open>n\<close>-th in a row after
  \<^verbatim>\<open>ps5000aRunBlock\<close>, with a flag different from the check value.  If such an answer
  comes the loop ends; if the device never reports ready, \<^verbatim>\<open>run_block\<close> never returns.
\<close>

theorem run_block_returns_iff:
  assumes "ready s = check s"
  shows "(\<exists>s'. run_block sdk s = Some s') \<longleftrightarrow>
         (\<exists>n>0. out16 (device sdk (trace s @ [Api (RunBlock (handle s) 0 (samples s) (timebase s) 0)]
                    @ replicate n (Api (IsReady (handle s) (check s))))) \<noteq> check s)"
proof
  assume "\<exists>s'. run_block sdk s = Some s'"
  then obtain s1 where s1: "poll sdk (start_block sdk s) = Some s1"
    by (auto simp: run_block_Some)
  have eq: "ready (start_block sdk s) = check (start_block sdk s)"
    using assms by simp
  from poll_returns[OF eq s1] show "\<exists>n>0. out16 (device sdk (trace s @ [Api (RunBlock (handle s) 0 (samples s) (timebase s) 0)]
                    @ replicate n (Api (IsReady (handle s) (check s))))) \<noteq> check s"
    by auto
next
  assume "\<exists>n>0. out16 (device sdk (trace s @ [Api (RunBlock (handle s) 0 (samples s) (timebase s) 0)]
                    @ replicate n (Api (IsReady (handle s) (check s))))) \<noteq> check s"
  then obtain n where n: "0 < n"
    "out16 (device sdk (trace (start_block sdk s)
        @ replicate n (Api (IsReady (handle (start_block sdk s)) (check (start_block sdk s)))))) \<noteq> check (start_block sdk s)"
    by auto
  have eq: "ready (start_block sdk s) = check (start_block sdk s)"
    using assms by simp
  from poll_terminates[OF eq n] show "\<exists>s'. run_block sdk s = Some s'"
    by (auto simp: run_block_Some)
qed

theorem run_block_returns_iff_witness:
  "ready demo_start = check demo_start \<and>
   (\<exists>s'. run_block demo demo_start = Some s') \<and>
   run_block (demo\<lparr>device := quiet\<rparr>) demo_start = None"
proof -
  have eq: "ready demo_start = check demo_start" by simp
  have "out16 (device demo (trace demo_start @ [Api (RunBlock (handle demo_start) 0 (samples demo_start) (timebase demo_start) 0)]
           @ replicate 2 (Api (IsReady (handle demo_start) (check demo_start))))) \<noteq> check demo_start"
    using demo_second_poll[of "[]" "Api (RunBlock 0 0 3 1 0)"] by (simp add: numeral_2_eq_2)
  then have yes: "\<exists>s'. run_block demo demo_start = Some s'"
    using run_block_returns_iff[OF eq, of demo] by (metis zero_less_numeral)
  have "\<not> (\<exists>s'. run_block (demo\<lparr>device := quiet\<rparr>) demo_start = Some s')"
    using run_block_returns_iff[OF eq, of "demo\<lparr>device := quiet\<rparr>"] by (simp add: quiet_def)
  then have "run_block (demo\<lparr>device := quiet\<rparr>) demo_start = None" by simp
  with eq yes show ?thesis by blast
qed

text \<open>
  Claim C7.  \<^verbatim>\<open>stop_scope\<close> calls \<^verbatim>\<open>ps5000aStop\<close> and then \<^verbatim>\<open>ps5000aCloseUnit\<close> with the
  handle of the object and returns the status of the close call; when the script runs
  to its end these two calls are the last events of its trace.
\<close>

theorem stop_scope_closes:
  assumes "script sdk = Some (Inr s)"
  shows "trace (snd (stop_scope sdk s0)) =
           trace s0 @ [Api (Stop (handle s0)), Api (CloseUnit (handle s0))] \<and>
         fst (stop_scope sdk s0) =
           rstatus (device sdk (trace s0 @ [Api (Stop (handle s0)), Api (CloseUnit (handle s0))])) \<and>
         (\<exists>t. trace s = t @ [Api (Stop (handle s)), Api (CloseUnit (handle s))])"
proof -
  note d = stop_scope_D[OF prod.collapse[symmetric], of sdk s0]
  from d(1) d(2) script_ends[OF assms] show ?thesis by simp
qed

theorem stop_scope_closes_witness:
  "\<exists>s. script demo = Some (Inr s) \<and>
        trace (snd (stop_scope demo demo_start)) = [Api (Stop 0), Api (CloseUnit 0)] \<and>
        fst (stop_scope demo demo_start) = 2 \<and>
        (\<exists>t. trace s = t @ [Api (Stop (handle s)), Api (CloseUnit (handle s))])"
proof -
  obtain s where s: "script demo = Some (Inr s)"
    using demo_script by blast
  from stop_scope_closes[OF s, of demo_start] s show ?thesis
    by (auto simp: demo_device_def quiet_def)
qed

text \<open>
  Claim C8.  In every state an object can reach, the ready flag and the check value
  are 0: the constructor sets them and \<^verbatim>\<open>run_block\<close> resets the flag after
  \<^verbatim>\<open>ps5000aGetValuesBulk\<close>.  So every \<^verbatim>\<open>run_block\<close> that returns has left them 0 again and,
  after \<^verbatim>\<open>ps5000aRunBlock\<close>, has polled the device at least once.
\<close>

theorem ready_flag_invariant:
  assumes "reachable sdk s"
  shows "ready s = 0 \<and> check s = 0 \<and>
         (\<forall>s'. run_block sdk s = Some s' \<longrightarrow>
            ready s' = 0 \<and> check s' = 0 \<and>
            (\<exists>t. trace s' = trace s @ Api (RunBlock (handle s) 0 (samples s) (timebase s) 0)
                     # Api (IsReady (handle s) 0) # t))"
proof -
  have f: "ready s = 0" "check s = 0"
    using reachable_flags[OF assms] by simp_all
  have "ready s' = 0 \<and> check s' = 0 \<and>
            (\<exists>t. trace s' = trace s @ Api (RunBlock (handle s) 0 (samples s) (timebase s) 0)
                     # Api (IsReady (handle s) 0) # t)"
    if r: "run_block sdk s = Some s'" for s'
  proof -
    from run_block_trace[OF r f] obtain n where n: "0 < n"
      "trace s' = trace s @ [Api (RunBlock (handle s) 0 (samples s) (timebase s) 0)]
               @ replicate n (Api (IsReady (handle s) 0))
               @ [Api (GetValuesBulk (handle s) (max_samples s) 0 0 0 0 (overflow s))]"
      by blast
    from n(1) obtain m where "n = Suc m" by (cases n) auto
    with n(2) have "\<exists>t. trace s' = trace s @ Api (RunBlock (handle s) 0 (samples s) (timebase s) 0)
                     # Api (IsReady (handle s) 0) # t"
      by simp
    with run_block_D(1,2)[OF r] f show ?thesis by simp
  qed
  with f show ?thesis by blast
qed

theorem ready_flag_invariant_witness:
  "\<exists>s s'. reachable demo s \<and> run_block demo demo_start = Some s \<and>
      ready s = 0 \<and> check s = 0 \<and> run_block demo s = Some s' \<and>
      ready s' = 0 \<and> check s' = 0 \<and>
      (\<exists>t. trace s' = trace s @ Api (RunBlock 0 0 3 1 0) # Api (IsReady 0 0) # t)"
proof -
  obtain s where s: "run_block demo demo_start = Some s"
    using demo_run_block[of demo_start] by auto
  have "reachable demo demo_start"
    unfolding demo_start_def by (rule r_init)
  then have r: "reachable demo s" using s by (rule r_run_block)
  note i = ready_flag_invariant[OF r]
  obtain s' where s': "run_block demo s = Some s'"
    using demo_run_block[of s] i by auto
  from i s s' r run_block_D(3,5,6)[OF s] show ?thesis
    by auto
qed

text \<open>
  Claim C9.  After \<^verbatim>\<open>initalise_parameters\<close> has returned, the entry \<^verbatim>\<open>"set_source"\<close> of the
  status dictionary is the status of the sixth API call, \<^verbatim>\<open>ps5000aSetChannel\<close> for
  channel 3.  The status codes of the calls for the channels 0, 1 and 2 are kept
  nowhere: whatever codes the driver returns for them, the state reached is the same.
\<close>

theorem set_source_status:
  assumes "initalise_parameters sdk s = Inr s'"
  shows "status s' ''set_source'' = Some (rstatus (device sdk (trace s @
             [Api (OpenUnit (handle s) (resolution s)),
              Api (MaximumValue (handle s') (max_adc s)),
              Api (SetChannel (handle s') 0 1 0 9 0),
              Api (SetChannel (handle s') 1 0 0 9 0),
              Api (SetChannel (handle s') 2 0 0 9 0),
              Api (SetChannel (handle s') 3 0 0 9 0)]))) \<and>
         initalise_parameters (with_early_status f sdk) s = Inr s'"
  using initalise_parameters_D(4)[OF assms] assms
  by (simp add: initalise_parameters_with_early_status)

theorem set_source_status_witness:
  "\<exists>s'. initalise_parameters demo demo_start = Inr s' \<and>
         status s' ''set_source'' = Some 6 \<and>
         initalise_parameters (with_early_status (\<lambda>t. 99) demo) demo_start = Inr s'"
proof -
  obtain t where t: "initalise_parameters demo demo_start = Inr t"
    using demo_initalise by blast
  from set_source_status[OF t, of "\<lambda>t. 99"] t show ?thesis
    by (auto simp: demo_device_def quiet_def)
qed



end
